theory Spec2Isabelle
  imports Main
begin

section \<open>Data model\<close>

text \<open>
  The records follow the interfaces of \<^verbatim>\<open>src/types\<close>. An optional field
  (\<^verbatim>\<open>access_token?: string\<close>) is an \<open>option\<close>; \<open>None\<close> stands for JavaScript's
  \<^verbatim>\<open>undefined\<close> and \<^verbatim>\<open>null\<close>, which the code never tells apart (it only uses
  truthiness tests and \<^verbatim>\<open>??\<close>). Numbers are epoch seconds or durations and are modelled
  as \<open>int\<close>; floating point values (\<^verbatim>\<open>NaN\<close>, fractions) are outside the model.
  Isabelle's record fields share one name space, so a field name that two interfaces of
  the source share carries a prefix or suffix in all but one of them; the comment next
  to the field gives the source's name.
\<close>

text \<open>\<^verbatim>\<open>TokenResponse\<close> (the fields the code reads).\<close>

record TokenResponse =
  access_token :: "string option"
  refresh_token :: "string option"
  expires_in :: "int option"
  error :: "string option"

text \<open>\<^verbatim>\<open>OAuthTokens\<close>.\<close>

record OAuthTokens =
  accessToken :: string
  refreshToken :: string
  expiresAt :: int
  createdAt :: int

text \<open>\<^verbatim>\<open>DeviceCodeState\<close>.\<close>

record DeviceCodeState =
  deviceCode :: string
  expiresIn :: int
  interval :: int

text \<open>\<^verbatim>\<open>Profile\<close>, \<^verbatim>\<open>ProfilesResponse\<close>; \<^verbatim>\<open>SelectedProfile\<close> has the two fields of a
  profile and \<^verbatim>\<open>selectedAt\<close>.\<close>

record Profile =
  uuid :: string
  username :: string

record ProfilesResponse =
  owner :: string
  profiles :: "Profile list"

record SelectedProfile = Profile +
  selectedAt :: int

text \<open>\<^verbatim>\<open>SessionTokens\<close>: \<open>expiresAtStr\<close> is the source's \<^verbatim>\<open>expiresAt\<close> (the server's
  string), \<open>sessionCreatedAt\<close> its \<^verbatim>\<open>createdAt\<close>.\<close>

record SessionTokens =
  sessionToken :: string
  identityToken :: string
  expiresAtStr :: string
  expiresEpoch :: int
  sessionCreatedAt :: int

text \<open>\<^verbatim>\<open>SessionResponse\<close>: \<open>r_sessionToken\<close>, \<open>r_identityToken\<close>, \<open>r_expiresAt\<close> and
  \<open>r_error\<close> are the source's \<^verbatim>\<open>sessionToken\<close>, \<^verbatim>\<open>identityToken\<close>, \<^verbatim>\<open>expiresAt\<close> and
  \<^verbatim>\<open>error\<close>.\<close>

record SessionResponse =
  r_sessionToken :: "string option"
  r_identityToken :: "string option"
  r_expiresAt :: "string option"
  r_error :: "string option"
  error_description :: "string option"
  message :: "string option"

text \<open>
  The result of \<^verbatim>\<open>JSON.parse\<close> (or \<^verbatim>\<open>response.json()\<close>) on a text: it throws
  (\<open>Malformed\<close>), or it yields the JSON value \<^verbatim>\<open>null\<close> (\<open>Null\<close>), on which every property
  read throws a \<^verbatim>\<open>TypeError\<close>, or it yields another value (\<open>Json\<close>), which the model
  holds at the type the code declares for it: a field that is absent, or that the value
  cannot have because it is not an object, reads as \<open>None\<close>.
\<close>

datatype 'a json = Malformed | Null | Json 'a

text \<open>A \<^verbatim>\<open>fetch\<close> response: the status code and the body; \<^verbatim>\<open>response.ok\<close> is a status
  in the range 200 to 299. A \<^verbatim>\<open>fetch\<close> that rejects (no response at all) is outside the
  model: every operation is given the response it receives.\<close>

record 'a Response =
  status :: nat
  body :: "'a json"

definition ok :: "'a Response \<Rightarrow> bool" where
  "ok response = (200 \<le> status response \<and> status response \<le> 299)"

text \<open>JavaScript's truthiness of an optional string: \<^verbatim>\<open>undefined\<close>, \<^verbatim>\<open>null\<close> and the
  empty string are falsy.\<close>

definition truthy :: "string option \<Rightarrow> bool" where
  "truthy v = (case v of None \<Rightarrow> False | Some s \<Rightarrow> s \<noteq> [])"

text \<open>The non-null assertion \<^verbatim>\<open>x!\<close> at type string. Every caller has tested the value
  before; on \<open>None\<close> the model returns the empty string.\<close>

definition nonnull :: "string option \<Rightarrow> string" where
  "nonnull v = (case v of None \<Rightarrow> [] | Some s \<Rightarrow> s)"

text \<open>\<^verbatim>\<open>Math.floor(Date.now() / 1000)\<close>, from the clock reading in milliseconds. Each
  operation of the model reads the clock once.\<close>

definition now_seconds :: "int \<Rightarrow> int" where
  "now_seconds now_ms = now_ms div 1000"

text \<open>The errors the code throws, one constructor per \<^verbatim>\<open>throw\<close> site (the spec's name for
  the kind in brackets), and the two runtime exceptions the modelled code can raise.\<close>

datatype error =
    InvalidDeviceCodeResponse \<comment> \<open>\<^verbatim>\<open>Invalid device code response\<close> [ProtocolError]\<close>
  | DeviceCodeExpired \<comment> \<open>\<^verbatim>\<open>Device code expired\<close>, on \<^verbatim>\<open>expired_token\<close>\<close>
  | AuthorizationDenied \<comment> \<open>\<^verbatim>\<open>Authorization denied\<close> [AccessDenied]\<close>
  | TokenError string \<comment> \<open>\<^verbatim>\<open>Token error: ...\<close> [ProtocolError]\<close>
  | DeviceCodeTimeout \<comment> \<open>\<^verbatim>\<open>Device code expired (timeout)\<close> [ExpiredGrant]\<close>
  | TokenRefreshFailed string \<comment> \<open>\<^verbatim>\<open>Token refresh failed: ...\<close> [RefreshFailed]\<close>
  | NoAccessToken \<comment> \<open>\<^verbatim>\<open>No access token in refresh response\<close> [RefreshFailed]\<close>
  | ProfilesHttpError nat \<comment> \<open>\<^verbatim>\<open>Failed to get profiles: HTTP ...\<close> [HttpError]\<close>
  | SessionCreateFailed string \<comment> \<open>\<^verbatim>\<open>Failed to create session: ...\<close> [SessionError]\<close>
  | InvalidSessionResponse \<comment> \<open>\<^verbatim>\<open>Invalid session response: missing tokens\<close> [MalformedResponse]\<close>
  | InvalidProfileNumber nat \<comment> \<open>\<^verbatim>\<open>Invalid profile number. Valid range: 1-n\<close> [InvalidIndex]\<close>
  | ProfileNotFound string \<comment> \<open>\<^verbatim>\<open>Profile with UUID '...' not found\<close> [NotFound]\<close>
  | SyntaxError \<comment> \<open>\<^verbatim>\<open>response.json()\<close> on a body that is not JSON\<close>
  | TypeError \<comment> \<open>a property read on \<^verbatim>\<open>undefined\<close> or \<^verbatim>\<open>null\<close>\<close>
  | ProcessExit nat \<comment> \<open>\<^verbatim>\<open>process.exit(n)\<close>\<close>

section \<open>TokenStore\<close>

text \<open>
  The object literal that \<^verbatim>\<open>saveOAuthTokens\<close> writes and \<^verbatim>\<open>loadOAuthTokens\<close> reads back
  as \<^verbatim>\<open>data\<close>: \<open>f_access_token\<close> and \<open>f_refresh_token\<close> are its \<^verbatim>\<open>access_token\<close> and
  \<^verbatim>\<open>refresh_token\<close>. All four are optional, since the loader tests for them.
\<close>

record OAuthFile =
  f_access_token :: "string option"
  f_refresh_token :: "string option"
  expires_at :: "int option"
  created_at :: "int option"

text \<open>
  The token directory: one field per file of \<^verbatim>\<open>Paths\<close>, \<open>None\<close> when the file does not
  exist (\<^verbatim>\<open>existsSync\<close> is false), otherwise what \<^verbatim>\<open>JSON.parse\<close> makes of its text.
  \<^verbatim>\<open>JSON.stringify\<close> followed by \<^verbatim>\<open>JSON.parse\<close> is taken to give the value back, which
  holds in the runtime for strings and finite numbers. The directory's and the files'
  permission bits (\<^verbatim>\<open>ensureDir\<close>, \<^verbatim>\<open>chmod\<close>) are not modelled. Every loader returns
  \<^verbatim>\<open>null\<close> on a file that holds \<^verbatim>\<open>null\<close>: \<^verbatim>\<open>loadOAuthTokens\<close> because the property read
  throws inside its \<^verbatim>\<open>try\<close>, the others because they return what \<^verbatim>\<open>JSON.parse\<close> gives.
\<close>

record TokenStore =
  OAUTH_TOKEN_FILE :: "OAuthFile json option"
  SESSION_TOKEN_FILE :: "SessionTokens json option"
  PROFILE_CACHE_FILE :: "ProfilesResponse json option"
  SELECTED_PROFILE_FILE :: "SelectedProfile json option"

definition saveOAuthTokens :: "TokenStore \<Rightarrow> OAuthTokens \<Rightarrow> TokenStore" where
  "saveOAuthTokens store tokens =
     store\<lparr>OAUTH_TOKEN_FILE := Some (Json
       \<lparr>f_access_token = Some (accessToken tokens),
        f_refresh_token = Some (refreshToken tokens),
        expires_at = Some (expiresAt tokens),
        created_at = Some (createdAt tokens)\<rparr>)\<rparr>"

definition loadOAuthTokens :: "int \<Rightarrow> TokenStore \<Rightarrow> OAuthTokens option" where
  "loadOAuthTokens now_ms store =
     (case OAUTH_TOKEN_FILE store of
        None \<Rightarrow> None
      | Some Malformed \<Rightarrow> None
      | Some Null \<Rightarrow> None
      | Some (Json data) \<Rightarrow>
          if \<not> truthy (f_access_token data) \<or> \<not> truthy (f_refresh_token data) then None
          else Some
            \<lparr>accessToken = nonnull (f_access_token data),
             refreshToken = nonnull (f_refresh_token data),
             expiresAt = (case expires_at data of None \<Rightarrow> 0 | Some e \<Rightarrow> e),
             createdAt = (case created_at data of None \<Rightarrow> now_seconds now_ms | Some c \<Rightarrow> c)\<rparr>)"

definition saveProfiles :: "TokenStore \<Rightarrow> ProfilesResponse \<Rightarrow> TokenStore" where
  "saveProfiles store ps = store\<lparr>PROFILE_CACHE_FILE := Some (Json ps)\<rparr>"

definition loadProfiles :: "TokenStore \<Rightarrow> ProfilesResponse option" where
  "loadProfiles store =
     (case PROFILE_CACHE_FILE store of
        None \<Rightarrow> None
      | Some Malformed \<Rightarrow> None
      | Some Null \<Rightarrow> None
      | Some (Json ps) \<Rightarrow> Some ps)"

definition saveSelectedProfile :: "TokenStore \<Rightarrow> SelectedProfile \<Rightarrow> TokenStore" where
  "saveSelectedProfile store profile = store\<lparr>SELECTED_PROFILE_FILE := Some (Json profile)\<rparr>"

definition loadSelectedProfile :: "TokenStore \<Rightarrow> SelectedProfile option" where
  "loadSelectedProfile store =
     (case SELECTED_PROFILE_FILE store of
        None \<Rightarrow> None
      | Some Malformed \<Rightarrow> None
      | Some Null \<Rightarrow> None
      | Some (Json profile) \<Rightarrow> Some profile)"

definition saveSessionTokens :: "TokenStore \<Rightarrow> SessionTokens \<Rightarrow> TokenStore" where
  "saveSessionTokens store tokens = store\<lparr>SESSION_TOKEN_FILE := Some (Json tokens)\<rparr>"

definition loadSessionTokens :: "TokenStore \<Rightarrow> SessionTokens option" where
  "loadSessionTokens store =
     (case SESSION_TOKEN_FILE store of
        None \<Rightarrow> None
      | Some Malformed \<Rightarrow> None
      | Some Null \<Rightarrow> None
      | Some (Json tokens) \<Rightarrow> Some tokens)"

definition clearAll :: "TokenStore \<Rightarrow> TokenStore" where
  "clearAll store =
     \<lparr>OAUTH_TOKEN_FILE = None, SESSION_TOKEN_FILE = None,
      PROFILE_CACHE_FILE = None, SELECTED_PROFILE_FILE = None\<rparr>"

text \<open>The token directory of a first run: no file exists.\<close>

definition no_files :: TokenStore where
  "no_files =
     \<lparr>OAUTH_TOKEN_FILE = None, SESSION_TOKEN_FILE = None,
      PROFILE_CACHE_FILE = None, SELECTED_PROFILE_FILE = None\<rparr>"

section \<open>OAuthClient: expiry\<close>

definition OAUTH_REFRESH_BUFFER :: int where
  "OAUTH_REFRESH_BUFFER = 300"

definition needsRefresh :: "int \<Rightarrow> int \<Rightarrow> bool" where
  "needsRefresh now_ms expiresAt' = (now_seconds now_ms \<ge> expiresAt' - OAUTH_REFRESH_BUFFER)"

definition createTokens :: "int \<Rightarrow> TokenResponse \<Rightarrow> OAuthTokens" where
  "createTokens now_ms data =
     (let now = now_seconds now_ms in
      \<lparr>accessToken = nonnull (access_token data),
       refreshToken = nonnull (refresh_token data),
       expiresAt = now + (case expires_in data of None \<Rightarrow> 3600 | Some ttl \<Rightarrow> ttl),
       createdAt = now\<rparr>)"

section \<open>SessionManager: expiry\<close>

definition SESSION_REFRESH_BUFFER :: int where
  "SESSION_REFRESH_BUFFER = 300"

definition isExpiring :: "int \<Rightarrow> int \<Rightarrow> bool" where
  "isExpiring now_ms expiresEpoch' = (now_seconds now_ms \<ge> expiresEpoch' - SESSION_REFRESH_BUFFER)"

section \<open>The network\<close>

text \<open>
  The remote endpoints, each a function from what the request carries to the response
  that \<^verbatim>\<open>fetch\<close> resolves to:
  \<^item> \<open>token_refresh\<close>: POST to \<^verbatim>\<open>TOKEN_URL\<close> with grant type \<^verbatim>\<open>refresh_token\<close> and the
    refresh token;
  \<^item> \<open>token_device\<close>: POST to \<^verbatim>\<open>TOKEN_URL\<close> with the device-code grant and the device
    code; the second argument counts the polls made before, since the answer changes
    while the operator authorizes;
  \<^item> \<open>get_profiles\<close>: GET \<^verbatim>\<open>PROFILES_URL\<close> with the bearer access token;
  \<^item> \<open>session_new\<close>: POST to \<^verbatim>\<open>SESSION_NEW_URL\<close> with the profile's uuid and the bearer
    access token;
  \<^item> \<open>session_refresh\<close>: POST to \<^verbatim>\<open>SESSION_REFRESH_URL\<close> with the bearer session token.
\<close>

record Server =
  token_refresh :: "string \<Rightarrow> TokenResponse Response"
  token_device :: "string \<Rightarrow> nat \<Rightarrow> TokenResponse Response"
  get_profiles :: "string \<Rightarrow> ProfilesResponse Response"
  session_new :: "string \<Rightarrow> string \<Rightarrow> SessionResponse Response"
  session_refresh :: "string \<Rightarrow> SessionResponse Response"

section \<open>OAuthClient\<close>

text \<open>
  \<^verbatim>\<open>pollForToken\<close>. The loop's variables are \<open>elapsed\<close> and the current interval; \<open>k\<close>
  counts the polls made and \<open>clock k\<close> is \<^verbatim>\<open>Date.now()\<close> at poll \<open>k\<close>. The loop need not
  end (an interval of 0 with a server that always answers \<^verbatim>\<open>authorization_pending\<close>),
  so it is a partial function: \<open>None\<close> is the run that never returns. What it returns
  records, besides the credential or the error and the store, the values of \<open>elapsed\<close>
  and of the interval when it returned.
\<close>

record PollEnd =
  poll_result :: "error + OAuthTokens"
  poll_store :: TokenStore
  poll_elapsed :: int
  poll_interval :: int

partial_function (option) pollLoop ::
  "Server \<Rightarrow> (nat \<Rightarrow> int) \<Rightarrow> TokenStore \<Rightarrow> DeviceCodeState \<Rightarrow> nat \<Rightarrow> int \<Rightarrow> int \<Rightarrow> PollEnd option"
where
  "pollLoop server clock store state k elapsed interval' =
     (if elapsed < expiresIn state then
        (let elapsed' = elapsed + interval' in
         case body (token_device server (deviceCode state) k) of
           Malformed \<Rightarrow>
             Some \<lparr>poll_result = Inl SyntaxError, poll_store = store,
                   poll_elapsed = elapsed', poll_interval = interval'\<rparr>
         | Null \<Rightarrow>
             Some \<lparr>poll_result = Inl TypeError, poll_store = store,
                   poll_elapsed = elapsed', poll_interval = interval'\<rparr>
         | Json data \<Rightarrow>
             if truthy (error data) then
               if error data = Some ''authorization_pending'' then
                 pollLoop server clock store state (Suc k) elapsed' interval'
               else if error data = Some ''slow_down'' then
                 pollLoop server clock store state (Suc k) elapsed' (interval' + 5)
               else if error data = Some ''expired_token'' then
                 Some \<lparr>poll_result = Inl DeviceCodeExpired, poll_store = store,
                       poll_elapsed = elapsed', poll_interval = interval'\<rparr>
               else if error data = Some ''access_denied'' then
                 Some \<lparr>poll_result = Inl AuthorizationDenied, poll_store = store,
                       poll_elapsed = elapsed', poll_interval = interval'\<rparr>
               else
                 Some \<lparr>poll_result = Inl (TokenError (nonnull (error data))), poll_store = store,
                       poll_elapsed = elapsed', poll_interval = interval'\<rparr>
             else if truthy (access_token data) \<and> truthy (refresh_token data) then
               (let tokens = createTokens (clock k) data in
                Some \<lparr>poll_result = Inr tokens, poll_store = saveOAuthTokens store tokens,
                      poll_elapsed = elapsed', poll_interval = interval'\<rparr>)
             else pollLoop server clock store state (Suc k) elapsed' interval')
      else
        Some \<lparr>poll_result = Inl DeviceCodeTimeout, poll_store = store,
              poll_elapsed = elapsed, poll_interval = interval'\<rparr>)"

definition pollForToken ::
  "Server \<Rightarrow> (nat \<Rightarrow> int) \<Rightarrow> TokenStore \<Rightarrow> DeviceCodeState \<Rightarrow> PollEnd option" where
  "pollForToken server clock store state = pollLoop server clock store state 0 0 (interval state)"

text \<open>\<^verbatim>\<open>refreshToken\<close>: the last argument is the prior refresh token.\<close>

definition OAuthClient_refreshToken ::
  "int \<Rightarrow> Server \<Rightarrow> TokenStore \<Rightarrow> string \<Rightarrow> (error + OAuthTokens) \<times> TokenStore" where
  "OAuthClient_refreshToken now_ms server store prior =
     (case body (token_refresh server prior) of
        Malformed \<Rightarrow> (Inl SyntaxError, store)
      | Null \<Rightarrow> (Inl TypeError, store)
      | Json data \<Rightarrow>
          if truthy (error data) then (Inl (TokenRefreshFailed (nonnull (error data))), store)
          else if \<not> truthy (access_token data) then (Inl NoAccessToken, store)
          else
            (let tokens = createTokens now_ms
                   (data\<lparr>refresh_token :=
                      Some (case refresh_token data of None \<Rightarrow> prior | Some r \<Rightarrow> r)\<rparr>)
             in (Inr tokens, saveOAuthTokens store tokens)))"

text \<open>\<^verbatim>\<open>getProfiles\<close>: on a body of \<^verbatim>\<open>null\<close> the cache file is written (with \<^verbatim>\<open>null\<close>)
  before \<^verbatim>\<open>profiles.profiles.length\<close> throws. Any other body is taken to have the
  \<^verbatim>\<open>profiles\<close> array that \<^verbatim>\<open>ProfilesResponse\<close> declares.\<close>

definition getProfiles ::
  "Server \<Rightarrow> TokenStore \<Rightarrow> string \<Rightarrow> (error + ProfilesResponse) \<times> TokenStore" where
  "getProfiles server store accessToken' =
     (let response = get_profiles server accessToken' in
      if \<not> ok response then (Inl (ProfilesHttpError (status response)), store)
      else
        (case body response of
           Malformed \<Rightarrow> (Inl SyntaxError, store)
         | Null \<Rightarrow> (Inl TypeError, store\<lparr>PROFILE_CACHE_FILE := Some Null\<rparr>)
         | Json ps \<Rightarrow> (Inr ps, saveProfiles store ps)))"

section \<open>SessionManager\<close>

text \<open>
  \<^verbatim>\<open>Date.parse\<close> belongs to the runtime, not to this repository: it is a parameter,
  giving the milliseconds since the epoch, or \<open>None\<close> where \<^verbatim>\<open>Date.parse\<close> gives \<^verbatim>\<open>NaN\<close>.
\<close>

definition parseExpiry :: "(string \<Rightarrow> int option) \<Rightarrow> int \<Rightarrow> string \<Rightarrow> int" where
  "parseExpiry Date_parse now_ms expiresAt' =
     (case Date_parse expiresAt' of
        None \<Rightarrow> now_seconds now_ms + 3600
      | Some parsed \<Rightarrow> parsed div 1000)"

definition SessionManager_create ::
  "(string \<Rightarrow> int option) \<Rightarrow> int \<Rightarrow> Server \<Rightarrow> TokenStore \<Rightarrow> string \<Rightarrow> string
     \<Rightarrow> (error + SessionTokens) \<times> TokenStore" where
  "SessionManager_create Date_parse now_ms server store profileUuid accessToken' =
     (case body (session_new server profileUuid accessToken') of
        Malformed \<Rightarrow> (Inl SyntaxError, store)
      | Null \<Rightarrow> (Inl TypeError, store)
      | Json data \<Rightarrow>
          if truthy (r_error data) then
            (Inl (SessionCreateFailed
               (nonnull (r_error data) @ '' - '' @
                  (case error_description data of
                     Some d \<Rightarrow> d
                   | None \<Rightarrow> (case message data of Some m \<Rightarrow> m | None \<Rightarrow> [])))), store)
          else if \<not> truthy (r_sessionToken data) \<or> \<not> truthy (r_identityToken data)
                  \<or> \<not> truthy (r_expiresAt data) then
            (Inl InvalidSessionResponse, store)
          else
            (let tokens =
                   \<lparr>sessionToken = nonnull (r_sessionToken data),
                    identityToken = nonnull (r_identityToken data),
                    expiresAtStr = nonnull (r_expiresAt data),
                    expiresEpoch = parseExpiry Date_parse now_ms (nonnull (r_expiresAt data)),
                    sessionCreatedAt = now_seconds now_ms\<rparr>
             in (Inr tokens, saveSessionTokens store tokens)))"

text \<open>\<^verbatim>\<open>refresh\<close>: \<open>Inr None\<close> is the source's \<^verbatim>\<open>null\<close>. The \<^verbatim>\<open>try\<close> covers
  \<^verbatim>\<open>response.json()\<close> only: on a body of \<^verbatim>\<open>null\<close> the read of \<^verbatim>\<open>data.sessionToken\<close>
  after it throws.\<close>

definition SessionManager_refresh ::
  "(string \<Rightarrow> int option) \<Rightarrow> int \<Rightarrow> Server \<Rightarrow> TokenStore \<Rightarrow> string
     \<Rightarrow> (error + SessionTokens option) \<times> TokenStore" where
  "SessionManager_refresh Date_parse now_ms server store sessionToken' =
     (let response = session_refresh server sessionToken' in
      if \<not> ok response then (Inr None, store)
      else
        (case body response of
           Malformed \<Rightarrow> (Inr None, store)
         | Null \<Rightarrow> (Inl TypeError, store)
         | Json data \<Rightarrow>
             if truthy (r_sessionToken data) \<and> truthy (r_identityToken data)
                \<and> truthy (r_expiresAt data) then
               (let tokens =
                      \<lparr>sessionToken = nonnull (r_sessionToken data),
                       identityToken = nonnull (r_identityToken data),
                       expiresAtStr = nonnull (r_expiresAt data),
                       expiresEpoch = parseExpiry Date_parse now_ms (nonnull (r_expiresAt data)),
                       sessionCreatedAt = now_seconds now_ms\<rparr>
                in (Inr (Some tokens), saveSessionTokens store tokens))
             else (Inr None, store)))"

section \<open>ProfileManager\<close>

definition build :: "int \<Rightarrow> string \<Rightarrow> string \<Rightarrow> SelectedProfile" where
  "build now_ms uuid' username' =
     \<lparr>uuid = uuid', username = username', selectedAt = now_seconds now_ms\<rparr>"

text \<open>
  \<^verbatim>\<open>select\<close>; \<open>autoSelect\<close> is the constructor's flag. Reading \<^verbatim>\<open>profile.uuid\<close> where
  \<^verbatim>\<open>profiles.profiles[0]\<close> is \<^verbatim>\<open>undefined\<close> throws a \<^verbatim>\<open>TypeError\<close>.
\<close>

definition select ::
  "bool \<Rightarrow> int \<Rightarrow> TokenStore \<Rightarrow> ProfilesResponse
     \<Rightarrow> (error + SelectedProfile option) \<times> TokenStore" where
  "select autoSelect now_ms store ps =
     (let saved = loadSelectedProfile store in
      if (case saved of
            None \<Rightarrow> False
          | Some s \<Rightarrow> list_ex (\<lambda>p. uuid p = uuid s) (profiles ps)) then (Inr saved, store)
      else if length (profiles ps) = 1 then
        (let profile = profiles ps ! 0;
             selected = build now_ms (uuid profile) (username profile)
         in (Inr (Some selected), saveSelectedProfile store selected))
      else if autoSelect then
        (case profiles ps of
           [] \<Rightarrow> (Inl TypeError, store)
         | profile # _ \<Rightarrow>
             (let selected = build now_ms (uuid profile) (username profile)
              in (Inr (Some selected), saveSelectedProfile store selected)))
      else (Inr None, store))"

text \<open>The test \<^verbatim>\<open>/^\d+$/\<close>: one or more characters, each of \<^verbatim>\<open>0\<close> to \<^verbatim>\<open>9\<close>; and
  \<^verbatim>\<open>Number.parseInt(selector, 10)\<close> on such a string.\<close>

definition is_digit :: "char \<Rightarrow> bool" where
  "is_digit c = (c \<in> set ''0123456789'')"

definition all_digits :: "string \<Rightarrow> bool" where
  "all_digits s = (s \<noteq> [] \<and> list_all is_digit s)"

definition parseInt :: "string \<Rightarrow> nat" where
  "parseInt s = foldl (\<lambda>n c. 10 * n + (of_char c - 48)) 0 s"

definition resolve :: "int \<Rightarrow> ProfilesResponse \<Rightarrow> string \<Rightarrow> error + SelectedProfile" where
  "resolve now_ms ps selector =
     (if all_digits selector then
        (let index = int (parseInt selector) - 1 in
         if index < 0 \<or> index \<ge> int (length (profiles ps)) then
           Inl (InvalidProfileNumber (length (profiles ps)))
         else
           (let p = profiles ps ! nat index in Inr (build now_ms (uuid p) (username p))))
      else
        (case find (\<lambda>p. uuid p = selector) (profiles ps) of
           None \<Rightarrow> Inl (ProfileNotFound selector)
         | Some profile \<Rightarrow> Inr (build now_ms (uuid profile) (username profile))))"

definition setSelection ::
  "int \<Rightarrow> TokenStore \<Rightarrow> ProfilesResponse \<Rightarrow> string \<Rightarrow> (error + SelectedProfile) \<times> TokenStore" where
  "setSelection now_ms store ps selector =
     (case resolve now_ms ps selector of
        Inl e \<Rightarrow> (Inl e, store)
      | Inr selected \<Rightarrow> (Inr selected, saveSelectedProfile store selected))"

section \<open>AuthCli\<close>

text \<open>\<^verbatim>\<open>AuthCli.refresh\<close>: an exception of a callee leaves through \<open>Inl\<close> with the store
  as it was at that point.\<close>

definition AuthCli_refresh ::
  "bool \<Rightarrow> (string \<Rightarrow> int option) \<Rightarrow> int \<Rightarrow> Server \<Rightarrow> TokenStore \<Rightarrow> (error + unit) \<times> TokenStore" where
  "AuthCli_refresh autoSelect Date_parse now_ms server store =
     (case loadOAuthTokens now_ms store of
        None \<Rightarrow> (Inl (ProcessExit 1), store)
      | Some oauth \<Rightarrow>
          (case OAuthClient_refreshToken now_ms server store (refreshToken oauth) of
             (Inl e, store1) \<Rightarrow> (Inl e, store1)
           | (Inr refreshedOAuth, store1) \<Rightarrow>
               (case loadSessionTokens store1 of
                  None \<Rightarrow> (Inr (), store1)
                | Some session \<Rightarrow>
                    (case SessionManager_refresh Date_parse now_ms server store1 (sessionToken session) of
                       (Inl e, store2) \<Rightarrow> (Inl e, store2)
                     | (Inr (Some refreshedSession), store2) \<Rightarrow> (Inr (), store2)
                     | (Inr None, store2) \<Rightarrow>
                         (case getProfiles server store2 (accessToken refreshedOAuth) of
                            (Inl e, store3) \<Rightarrow> (Inl e, store3)
                          | (Inr ps, store3) \<Rightarrow>
                              (case select autoSelect now_ms store3 ps of
                                 (Inl e, store4) \<Rightarrow> (Inl e, store4)
                               | (Inr None, store4) \<Rightarrow> (Inr (), store4)
                               | (Inr (Some selected), store4) \<Rightarrow>
                                   (case SessionManager_create Date_parse now_ms server store4
                                           (uuid selected) (accessToken refreshedOAuth) of
                                      (Inl e, store5) \<Rightarrow> (Inl e, store5)
                                    | (Inr created, store5) \<Rightarrow> (Inr (), store5))))))))"

section \<open>Vocabulary of the properties\<close>

text \<open>A reply to a poll that sends \<^verbatim>\<open>pollForToken\<close> round its loop again:
  \<^verbatim>\<open>authorization_pending\<close>, \<^verbatim>\<open>slow_down\<close>, or a reply with no error that lacks the
  access token or the refresh token.\<close>

definition retries :: "TokenResponse Response \<Rightarrow> bool" where
  "retries response =
     (case body response of
        Malformed \<Rightarrow> False
      | Null \<Rightarrow> False
      | Json data \<Rightarrow>
          if truthy (error data) then
            error data = Some ''authorization_pending'' \<or> error data = Some ''slow_down''
          else \<not> (truthy (access_token data) \<and> truthy (refresh_token data)))"

text \<open>A reply that makes the loop add 5 to its interval.\<close>

definition slows :: "TokenResponse Response \<Rightarrow> bool" where
  "slows response =
     (case body response of
        Malformed \<Rightarrow> False
      | Null \<Rightarrow> False
      | Json data \<Rightarrow> error data = Some ''slow_down'')"

text \<open>The values of \<open>elapsed\<close> and of the interval at the loop test that precedes poll
  \<open>k\<close>, when the loop starts with interval \<open>i\<close> and every earlier reply asked to retry:
  each round adds the interval to \<open>elapsed\<close>, and a \<^verbatim>\<open>slow_down\<close> adds 5 to the interval.\<close>

fun poll_schedule :: "(nat \<Rightarrow> TokenResponse Response) \<Rightarrow> int \<Rightarrow> nat \<Rightarrow> int \<times> int" where
  "poll_schedule reply i 0 = (0, i)"
| "poll_schedule reply i (Suc k) =
     (case poll_schedule reply i k of
        (e, j) \<Rightarrow> (e + j, if slows (reply k) then j + 5 else j))"

text \<open>What holds of the loop's result when it was entered with \<open>elapsed = e\<close> and a
  positive interval \<open>i\<close>.\<close>

definition poll_post :: "TokenStore \<Rightarrow> DeviceCodeState \<Rightarrow> int \<Rightarrow> int \<Rightarrow> PollEnd \<Rightarrow> bool" where
  "poll_post store state e i out =
     (i \<le> poll_interval out \<and> e \<le> poll_elapsed out \<and>
      (e < max 0 (expiresIn state) + i \<longrightarrow>
         poll_elapsed out < max 0 (expiresIn state) + poll_interval out) \<and>
      (case poll_result out of
         Inr tokens \<Rightarrow>
           e < poll_elapsed out \<and> poll_elapsed out - poll_interval out < expiresIn state \<and>
           poll_store out = saveOAuthTokens store tokens
       | Inl err \<Rightarrow>
           poll_store out = store \<and> (err = DeviceCodeTimeout \<longrightarrow> expiresIn state \<le> poll_elapsed out)))"

text \<open>What holds of the result \<open>out\<close> when the loop test that precedes poll \<open>n\<close> sees
  \<open>elapsed = e\<close> and the interval \<open>i\<close>, and \<open>r\<close>, the reply to poll \<open>n\<close>, does not ask to
  retry: below the window's end the poll is made and \<open>r\<close> decides the result; otherwise
  no poll is made and the result is the timeout.\<close>

definition poll_ends ::
  "(nat \<Rightarrow> int) \<Rightarrow> TokenStore \<Rightarrow> DeviceCodeState \<Rightarrow> TokenResponse Response \<Rightarrow> nat
     \<Rightarrow> int \<Rightarrow> int \<Rightarrow> PollEnd \<Rightarrow> bool" where
  "poll_ends clock store state r n e i out =
     (if e < expiresIn state then
        poll_elapsed out = e + i \<and> poll_interval out = i \<and> \<not> retries r \<and>
        (case body r of
           Malformed \<Rightarrow> poll_result out = Inl SyntaxError \<and> poll_store out = store
         | Null \<Rightarrow> poll_result out = Inl TypeError \<and> poll_store out = store
         | Json data \<Rightarrow>
             if truthy (error data) then
               poll_store out = store \<and>
               poll_result out =
                 Inl (if error data = Some ''expired_token'' then DeviceCodeExpired
                      else if error data = Some ''access_denied'' then AuthorizationDenied
                      else TokenError (nonnull (error data)))
             else
               poll_result out = Inr (createTokens (clock n) data) \<and>
               poll_store out = saveOAuthTokens store (createTokens (clock n) data))
      else
        poll_result out = Inl DeviceCodeTimeout \<and> poll_store out = store \<and>
        poll_elapsed out = e \<and> poll_interval out = i)"

section \<open>Concrete inputs\<close>

text \<open>A server whose every endpoint answers 503 with a body that is not JSON; the
  servers below replace single endpoints of it.\<close>

definition unavailable :: Server where
  "unavailable =
     \<lparr>token_refresh = (\<lambda>rt. \<lparr>status = 503, body = Malformed\<rparr>),
      token_device = (\<lambda>dc k. \<lparr>status = 503, body = Malformed\<rparr>),
      get_profiles = (\<lambda>at. \<lparr>status = 503, body = Malformed\<rparr>),
      session_new = (\<lambda>u at. \<lparr>status = 503, body = Malformed\<rparr>),
      session_refresh = (\<lambda>st. \<lparr>status = 503, body = Malformed\<rparr>)\<rparr>"

definition pending :: "TokenResponse Response" where
  "pending =
     \<lparr>status = 400,
      body = Json \<lparr>access_token = None, refresh_token = None, expires_in = None,
                  error = Some ''authorization_pending''\<rparr>\<rparr>"

definition granted :: "TokenResponse Response" where
  "granted =
     \<lparr>status = 200,
      body = Json \<lparr>access_token = Some ''at1'', refresh_token = Some ''rt1'',
                  expires_in = None, error = None\<rparr>\<rparr>"

definition rotated :: TokenResponse where
  "rotated = \<lparr>access_token = Some ''at2'', refresh_token = Some ''rt2'',
              expires_in = Some 7200, error = None\<rparr>"

definition not_rotated :: TokenResponse where
  "not_rotated = \<lparr>access_token = Some ''at2'', refresh_token = None,
                  expires_in = Some 7200, error = None\<rparr>"

definition rotating :: Server where
  "rotating = unavailable\<lparr>token_refresh := (\<lambda>rt. \<lparr>status = 200, body = Json rotated\<rparr>)\<rparr>"

definition not_rotating :: Server where
  "not_rotating = unavailable\<lparr>token_refresh := (\<lambda>rt. \<lparr>status = 200, body = Json not_rotated\<rparr>)\<rparr>"

definition always_pending :: Server where
  "always_pending = unavailable\<lparr>token_device := (\<lambda>dc k. pending)\<rparr>"

definition granted_on_second_poll :: Server where
  "granted_on_second_poll =
     unavailable\<lparr>token_device := (\<lambda>dc k. if k = 0 then pending else granted)\<rparr>"

definition stopped_clock :: "nat \<Rightarrow> int" where
  "stopped_clock k = 0"

definition short_grant :: DeviceCodeState where
  "short_grant = \<lparr>deviceCode = ''dc'', expiresIn = 10, interval = 7\<rparr>"

definition zero_interval :: DeviceCodeState where
  "zero_interval = \<lparr>deviceCode = ''dc'', expiresIn = 10, interval = 0\<rparr>"

definition slow_down :: "TokenResponse Response" where
  "slow_down =
     \<lparr>status = 400,
      body = Json \<lparr>access_token = None, refresh_token = None, expires_in = None,
                  error = Some ''slow_down''\<rparr>\<rparr>"

definition slowed_then_granted :: Server where
  "slowed_then_granted =
     unavailable\<lparr>token_device := (\<lambda>dc k. if k = 0 then slow_down else granted)\<rparr>"

definition long_grant :: DeviceCodeState where
  "long_grant = \<lparr>deviceCode = ''dc'', expiresIn = 30, interval = 7\<rparr>"


definition session_reply :: SessionResponse where
  "session_reply =
     \<lparr>r_sessionToken = Some ''s2'', r_identityToken = Some ''i2'',
      r_expiresAt = Some ''2026-01-01T00:00:00Z'', r_error = None,
      error_description = None, message = None\<rparr>"

definition session_reply_odd_date :: SessionResponse where
  "session_reply_odd_date =
     \<lparr>r_sessionToken = Some ''s3'', r_identityToken = Some ''i3'',
      r_expiresAt = Some ''soon'', r_error = None,
      error_description = None, message = None\<rparr>"

definition session_reply_no_identity :: SessionResponse where
  "session_reply_no_identity =
     \<lparr>r_sessionToken = Some ''s2'', r_identityToken = None,
      r_expiresAt = Some ''2026-01-01T00:00:00Z'', r_error = None,
      error_description = None, message = None\<rparr>"

text \<open>A \<^verbatim>\<open>Date.parse\<close> that knows one ISO date (1767225600000 ms) and gives \<^verbatim>\<open>NaN\<close> on
  everything else.\<close>

definition one_date :: "string \<Rightarrow> int option" where
  "one_date s = (if s = ''2026-01-01T00:00:00Z'' then Some 1767225600000 else None)"

definition refresh_incomplete :: Server where
  "refresh_incomplete =
     unavailable\<lparr>session_refresh := (\<lambda>st. \<lparr>status = 200, body = Json session_reply_no_identity\<rparr>)\<rparr>"

definition refresh_null_body :: Server where
  "refresh_null_body = unavailable\<lparr>session_refresh := (\<lambda>st. \<lparr>status = 200, body = Null\<rparr>)\<rparr>"

definition create_fine :: Server where
  "create_fine = unavailable\<lparr>session_new := (\<lambda>u at. \<lparr>status = 200, body = Json session_reply\<rparr>)\<rparr>"

definition create_odd :: Server where
  "create_odd =
     unavailable\<lparr>session_new := (\<lambda>u at. \<lparr>status = 200, body = Json session_reply_odd_date\<rparr>)\<rparr>"

definition steve :: Profile where
  "steve = \<lparr>uuid = ''abc123'', username = ''Steve''\<rparr>"

definition alex :: Profile where
  "alex = \<lparr>uuid = ''def456'', username = ''Alex''\<rparr>"

definition two_profiles :: ProfilesResponse where
  "two_profiles = \<lparr>owner = ''acct'', profiles = [steve, alex]\<rparr>"

definition old_oauth :: OAuthTokens where
  "old_oauth = \<lparr>accessToken = ''at1'', refreshToken = ''rt1'', expiresAt = 1767139200,
                createdAt = 1767135600\<rparr>"

definition old_session :: SessionTokens where
  "old_session =
     \<lparr>sessionToken = ''s1'', identityToken = ''i1'', expiresAtStr = ''2025-12-31T00:00:00Z'',
      expiresEpoch = 1767139200, sessionCreatedAt = 1767135600\<rparr>"

text \<open>The token directory after a login and a session creation.\<close>

definition signed_in :: TokenStore where
  "signed_in = saveSessionTokens (saveOAuthTokens no_files old_oauth) old_session"

text \<open>Every endpoint answers, and answers well-formed: the token endpoint rotates the
  refresh token, the account has two profiles, a new session can be created; only the
  refresh of the stale session is rejected, with 401.\<close>

definition reachable :: Server where
  "reachable =
     \<lparr>token_refresh = (\<lambda>rt. \<lparr>status = 200, body = Json rotated\<rparr>),
      token_device = (\<lambda>dc k. pending),
      get_profiles = (\<lambda>at. \<lparr>status = 200, body = Json two_profiles\<rparr>),
      session_new = (\<lambda>u at. \<lparr>status = 200, body = Json session_reply\<rparr>),
      session_refresh = (\<lambda>st. \<lparr>status = 401, body = Malformed\<rparr>)\<rparr>"

text \<open>The OAuth credential that the token endpoint of \<open>reachable\<close> gives at time 0.\<close>

definition refreshed_oauth :: OAuthTokens where
  "refreshed_oauth = \<lparr>accessToken = ''at2'', refreshToken = ''rt2'', expiresAt = 7200,
                      createdAt = 0\<rparr>"

section \<open>Helper lemmas\<close>

lemma floor_ge_iff: "(k \<le> m div 1000) = (k * 1000 \<le> (m::int))"
  by linarith

lemma truthy_Some: "truthy v \<Longrightarrow> \<exists>s. v = Some s \<and> s \<noteq> [] \<and> nonnull v = s"
  by (cases v) (simp_all add: truthy_def nonnull_def)

lemma loadSessionTokens_file:
  "SESSION_TOKEN_FILE store' = SESSION_TOKEN_FILE store \<Longrightarrow>
   loadSessionTokens store' = loadSessionTokens store"
  by (simp add: loadSessionTokens_def)

lemma refresh_None_store:
  "fst (SessionManager_refresh Date_parse now_ms server store tok) = Inr None \<Longrightarrow>
   SessionManager_refresh Date_parse now_ms server store tok = (Inr None, store)"
  by (auto simp: SessionManager_refresh_def Let_def split: json.splits if_splits)

section \<open>The refresh-anticipation rule\<close>

text \<open>
  C1. For every expiry instant \<open>e\<close> and every clock reading, \<open>needsRefresh\<close> of the OAuth
  client and \<open>isExpiring\<close> of the session manager are true exactly when the current time
  in seconds is at least \<open>e - 300\<close>; the two agree. The last conjunct says the same of
  the clock reading in milliseconds: flooring to seconds loses nothing, \<open>e\<close> being whole
  seconds.
\<close>

theorem needsRefresh_isExpiring_iff:
  "needsRefresh now_ms e = (now_seconds now_ms \<ge> e - 300) \<and>
   isExpiring now_ms e = (now_seconds now_ms \<ge> e - 300) \<and>
   needsRefresh now_ms e = isExpiring now_ms e \<and>
   needsRefresh now_ms e = (now_ms \<ge> (e - 300) * 1000)"
  unfolding needsRefresh_def isExpiring_def OAUTH_REFRESH_BUFFER_def SESSION_REFRESH_BUFFER_def
    now_seconds_def
  by (simp add: floor_ge_iff)

section \<open>Device-code polling\<close>

lemma poll_post_step:
  assumes "poll_post store state (e + i) i' out" and "0 < i" and "i \<le> i'" and "e < expiresIn state"
  shows "poll_post store state e i out"
  using assms by (auto simp: poll_post_def split: sum.splits)

text \<open>The loop returns whenever the interval is positive: \<open>expiresIn - elapsed\<close> goes
  down with every round.\<close>

lemma pollLoop_returns:
  assumes "0 < i"
  shows "\<exists>out. pollLoop server clock store state k e i = Some out \<and> poll_post store state e i out \<and>
           ((\<forall>j\<ge>k. retries (token_device server (deviceCode state) j)) \<longrightarrow>
              poll_result out = Inl DeviceCodeTimeout)"
  using assms
proof (induction "nat (expiresIn state - e)" arbitrary: k e i rule: less_induct)
  case less
  show ?case
  proof (cases "e < expiresIn state")
    case False
    then show ?thesis
      by (subst pollLoop.simps) (simp add: poll_post_def)
  next
    case True
    have smaller: "nat (expiresIn state - (e + i)) < nat (expiresIn state - e)"
      using True less.prems by linarith
    have again: "\<exists>out. pollLoop server clock store state (Suc k) (e + i) i' = Some out \<and>
        poll_post store state e i out \<and>
        ((\<forall>j\<ge>k. retries (token_device server (deviceCode state) j)) \<longrightarrow>
              poll_result out = Inl DeviceCodeTimeout)" if "i \<le> i'" for i'
    proof -
      from that less.prems have "0 < i'" by linarith
      from less.hyps [OF smaller this, of "Suc k"] obtain out where
        out: "pollLoop server clock store state (Suc k) (e + i) i' = Some out"
          "poll_post store state (e + i) i' out"
          "(\<forall>j\<ge>Suc k. retries (token_device server (deviceCode state) j)) \<longrightarrow>
              poll_result out = Inl DeviceCodeTimeout"
        by blast
      have "poll_post store state e i out"
        using poll_post_step [OF out(2) less.prems that True] .
      with out(1,3) show ?thesis by auto
    qed
    show ?thesis
    proof (cases "body (token_device server (deviceCode state) k)")
      case Malformed
      have "\<not> retries (token_device server (deviceCode state) k)"
        using Malformed by (simp add: retries_def)
      then show ?thesis
        using True Malformed less.prems
        by (subst pollLoop.simps) (auto simp: poll_post_def Let_def)
    next
      case Null
      have "\<not> retries (token_device server (deviceCode state) k)"
        using Null by (simp add: retries_def)
      then show ?thesis
        using True Null less.prems
        by (subst pollLoop.simps) (auto simp: poll_post_def Let_def)
    next
      case (Json data)
      consider (pending) "truthy (error data)" "error data = Some ''authorization_pending''"
        | (slow) "truthy (error data)" "error data = Some ''slow_down''"
        | (fatal) "truthy (error data)" "error data \<noteq> Some ''authorization_pending''"
            "error data \<noteq> Some ''slow_down''"
        | (issued) "\<not> truthy (error data)" "truthy (access_token data) \<and> truthy (refresh_token data)"
        | (empty) "\<not> truthy (error data)" "\<not> (truthy (access_token data) \<and> truthy (refresh_token data))"
        by blast
      then show ?thesis
      proof cases
        case pending
        then show ?thesis
          using True Json again [of i] by (subst pollLoop.simps) (simp add: Let_def)
      next
        case slow
        then show ?thesis
          using True Json again [of "i + 5"] by (subst pollLoop.simps) (simp add: Let_def)
      next
        case fatal
        have "\<not> retries (token_device server (deviceCode state) k)"
          using Json fatal by (simp add: retries_def)
        then show ?thesis
          using True Json fatal less.prems
          by (subst pollLoop.simps) (auto simp: poll_post_def Let_def)
      next
        case issued
        have "\<not> retries (token_device server (deviceCode state) k)"
          using Json issued by (simp add: retries_def)
        then show ?thesis
          using True Json issued less.prems
          by (subst pollLoop.simps) (auto simp: poll_post_def Let_def)
      next
        case empty
        then show ?thesis
          using True Json again [of i] by (subst pollLoop.simps) (auto simp: Let_def)
      qed
    qed
  qed
qed

text \<open>With an interval of 0 and a server that always answers \<^verbatim>\<open>authorization_pending\<close>,
  \<open>elapsed\<close> stays 0 and the loop never returns.\<close>

lemma pollLoop_stuck:
  "pollLoop server clock store state k e i = Some out \<Longrightarrow>
   \<not> (server = always_pending \<and> e = 0 \<and> i = 0 \<and> 0 < expiresIn state)"
  apply (erule pollLoop.raw_induct [rotated])
  apply (rule notI)
  apply (elim conjE)
  apply (simp add: always_pending_def unavailable_def pending_def truthy_def)
  done

lemma poll_zero_interval:
  "pollForToken always_pending stopped_clock no_files zero_interval = None"
proof (cases "pollForToken always_pending stopped_clock no_files zero_interval")
  case None
  then show ?thesis .
next
  case (Some out)
  then show ?thesis
    using pollLoop_stuck [of always_pending stopped_clock no_files zero_interval 0 0 0 out]
    by (simp add: pollForToken_def zero_interval_def)
qed

lemma poll_always_pending:
  "pollForToken always_pending stopped_clock no_files short_grant =
     Some \<lparr>poll_result = Inl DeviceCodeTimeout, poll_store = no_files,
           poll_elapsed = 14, poll_interval = 7\<rparr>"
  by (simp add: pollForToken_def pollLoop.simps short_grant_def always_pending_def
      unavailable_def pending_def truthy_def Let_def)

lemma schedule_interval: "i \<le> snd (poll_schedule reply i k)"
  by (induction k) (auto split: prod.splits)

lemma pollLoop_timeout:
  "\<not> e < expiresIn state \<Longrightarrow>
   pollLoop server clock store state k e i =
     Some \<lparr>poll_result = Inl DeviceCodeTimeout, poll_store = store,
           poll_elapsed = e, poll_interval = i\<rparr>"
  by (subst pollLoop.simps) simp

lemma pollLoop_retry:
  assumes "e < expiresIn state" and "retries (token_device server (deviceCode state) k)"
  shows "pollLoop server clock store state k e i =
     pollLoop server clock store state (Suc k) (e + i)
       (if slows (token_device server (deviceCode state) k) then i + 5 else i)"
proof (cases "body (token_device server (deviceCode state) k)")
  case Malformed
  with assms(2) show ?thesis by (simp add: retries_def)
next
  case Null
  with assms(2) show ?thesis by (simp add: retries_def)
next
  case (Json data)
  show ?thesis
  proof (cases "truthy (error data)")
    case True
    with assms Json show ?thesis
      by (subst pollLoop.simps) (auto simp: retries_def slows_def Let_def)
  next
    case False
    then have "error data \<noteq> Some ''slow_down''"
      by (auto simp: truthy_def)
    with assms Json False show ?thesis
      by (subst pollLoop.simps) (auto simp: retries_def slows_def Let_def)
  qed
qed

lemma pollLoop_final:
  assumes "e < expiresIn state" and "\<not> retries (token_device server (deviceCode state) k)"
  shows "\<exists>out. pollLoop server clock store state k e i = Some out \<and>
           poll_ends clock store state (token_device server (deviceCode state) k) k e i out"
proof (cases "body (token_device server (deviceCode state) k)")
  case Malformed
  with assms show ?thesis
    by (subst pollLoop.simps) (simp add: poll_ends_def Let_def)
next
  case Null
  with assms show ?thesis
    by (subst pollLoop.simps) (simp add: poll_ends_def Let_def)
next
  case (Json data)
  with assms show ?thesis
    by (subst pollLoop.simps) (auto simp: poll_ends_def retries_def Let_def)
qed

text \<open>The run of the loop, poll by poll: some number \<open>n\<close> of polls, all made inside the
  window, are answered by a request to retry, and then the loop ends at the test or at
  the poll that follows.\<close>

lemma pollLoop_trace:
  assumes "0 < i0"
  shows "\<exists>n out. k \<le> n \<and>
     pollLoop server clock store state k
       (fst (poll_schedule (token_device server (deviceCode state)) i0 k))
       (snd (poll_schedule (token_device server (deviceCode state)) i0 k)) = Some out \<and>
     (\<forall>j. k \<le> j \<and> j < n \<longrightarrow>
        retries (token_device server (deviceCode state) j) \<and>
        fst (poll_schedule (token_device server (deviceCode state)) i0 j) < expiresIn state) \<and>
     poll_ends clock store state (token_device server (deviceCode state) n) n
       (fst (poll_schedule (token_device server (deviceCode state)) i0 n))
       (snd (poll_schedule (token_device server (deviceCode state)) i0 n)) out"
proof (induction "nat (expiresIn state - fst (poll_schedule (token_device server (deviceCode state)) i0 k))"
    arbitrary: k rule: less_induct)
  case less
  let ?reply = "token_device server (deviceCode state)"
  let ?S = "poll_schedule ?reply i0"
  have pos: "0 < snd (?S k)"
    using schedule_interval [of i0 ?reply k] assms by linarith
  show ?case
  proof (cases "fst (?S k) < expiresIn state")
    case False
    let ?out = "\<lparr>poll_result = Inl DeviceCodeTimeout, poll_store = store,
           poll_elapsed = fst (?S k), poll_interval = snd (?S k)\<rparr>"
    have "pollLoop server clock store state k (fst (?S k)) (snd (?S k)) = Some ?out"
      using False by (rule pollLoop_timeout)
    with False show ?thesis
      by (intro exI [of _ k] exI [of _ ?out]) (auto simp: poll_ends_def)
  next
    case True
    show ?thesis
    proof (cases "retries (?reply k)")
      case False
      from pollLoop_final [OF True False, of clock store "snd (?S k)"] obtain out where
        "pollLoop server clock store state k (fst (?S k)) (snd (?S k)) = Some out"
        "poll_ends clock store state (?reply k) k (fst (?S k)) (snd (?S k)) out"
        by blast
      then show ?thesis
        by (intro exI [of _ k] exI [of _ out]) auto
    next
      case retry: True
      have "nat (expiresIn state - fst (?S (Suc k))) < nat (expiresIn state - fst (?S k))"
        using True pos by (simp add: case_prod_beta)
      from less.hyps [OF this] obtain n out where
        n: "Suc k \<le> n"
          "pollLoop server clock store state (Suc k) (fst (?S (Suc k))) (snd (?S (Suc k))) = Some out"
          "\<forall>j. Suc k \<le> j \<and> j < n \<longrightarrow> retries (?reply j) \<and> fst (?S j) < expiresIn state"
          "poll_ends clock store state (?reply n) n (fst (?S n)) (snd (?S n)) out"
        by blast
      have "pollLoop server clock store state k (fst (?S k)) (snd (?S k)) = Some out"
        using pollLoop_retry [OF True retry, of clock store "snd (?S k)"] n(2)
        by (simp add: case_prod_beta)
      moreover have "\<forall>j. k \<le> j \<and> j < n \<longrightarrow> retries (?reply j) \<and> fst (?S j) < expiresIn state"
      proof (intro allI impI)
        fix j assume "k \<le> j \<and> j < n"
        then consider "j = k" | "Suc k \<le> j \<and> j < n" by linarith
        then show "retries (?reply j) \<and> fst (?S j) < expiresIn state"
          using retry True n(3) by cases auto
      qed
      ultimately show ?thesis
        using n(1,4) by (intro exI [of _ n] exI [of _ out]) auto
    qed
  qed
qed

text \<open>
  C2, as the code has it. For every device-grant state with a positive interval,
  \<open>pollForToken\<close> returns, and its run is this: some number \<open>n\<close> of polls are made, each
  after a loop test that found the elapsed time below \<open>expiresIn\<close>, and each answered by
  a request to retry; the elapsed time and the interval at each test are those of
  \<open>poll_schedule\<close>. Then, if the elapsed time at the next test is still below \<open>expiresIn\<close>,
  poll \<open>n\<close> is made after one more sleep and its reply decides the result: a reply with
  both tokens and no error gives the credential built from it, which is saved, and an
  error reply gives its error, with the store untouched. Otherwise no further poll is
  made and the result is the timeout error. The window is tested before each sleep, not
  after it, so the elapsed time at the return is below \<open>expiresIn\<close> plus the interval then
  in force and may be \<open>expiresIn\<close> or more; the interval never goes down; and the timeout
  is the result whenever every reply asks to retry.
\<close>

theorem pollForToken_returns:
  assumes "0 < interval state"
  shows "\<exists>n out. pollForToken server clock store state = Some out \<and>
     (\<forall>k<n. retries (token_device server (deviceCode state) k) \<and>
        fst (poll_schedule (token_device server (deviceCode state)) (interval state) k)
          < expiresIn state) \<and>
     (if fst (poll_schedule (token_device server (deviceCode state)) (interval state) n)
          < expiresIn state then
        poll_elapsed out =
          fst (poll_schedule (token_device server (deviceCode state)) (interval state) n) +
          snd (poll_schedule (token_device server (deviceCode state)) (interval state) n) \<and>
        poll_interval out =
          snd (poll_schedule (token_device server (deviceCode state)) (interval state) n) \<and>
        \<not> retries (token_device server (deviceCode state) n) \<and>
        (case body (token_device server (deviceCode state) n) of
           Malformed \<Rightarrow> poll_result out = Inl SyntaxError \<and> poll_store out = store
         | Null \<Rightarrow> poll_result out = Inl TypeError \<and> poll_store out = store
         | Json data \<Rightarrow>
             if truthy (error data) then
               poll_store out = store \<and>
               poll_result out =
                 Inl (if error data = Some ''expired_token'' then DeviceCodeExpired
                      else if error data = Some ''access_denied'' then AuthorizationDenied
                      else TokenError (nonnull (error data)))
             else
               poll_result out = Inr (createTokens (clock n) data) \<and>
               poll_store out = saveOAuthTokens store (createTokens (clock n) data))
      else
        poll_result out = Inl DeviceCodeTimeout \<and> poll_store out = store \<and>
        poll_elapsed out =
          fst (poll_schedule (token_device server (deviceCode state)) (interval state) n) \<and>
        poll_interval out =
          snd (poll_schedule (token_device server (deviceCode state)) (interval state) n)) \<and>
     interval state \<le> poll_interval out \<and>
     poll_elapsed out < max 0 (expiresIn state) + poll_interval out \<and>
     ((\<forall>k. retries (token_device server (deviceCode state) k)) \<longrightarrow>
        poll_result out = Inl DeviceCodeTimeout)"
proof -
  from pollLoop_trace [OF assms, of 0 server clock store state] obtain n out where
    run: "pollLoop server clock store state 0 0 (interval state) = Some out"
      "\<forall>j. j < n \<longrightarrow>
        retries (token_device server (deviceCode state) j) \<and>
        fst (poll_schedule (token_device server (deviceCode state)) (interval state) j)
          < expiresIn state"
      "poll_ends clock store state (token_device server (deviceCode state) n) n
        (fst (poll_schedule (token_device server (deviceCode state)) (interval state) n))
        (snd (poll_schedule (token_device server (deviceCode state)) (interval state) n)) out"
    by auto
  from pollLoop_returns [OF assms, of server clock store state 0 0] run(1) have
    post: "poll_post store state 0 (interval state) out"
      "(\<forall>j\<ge>0. retries (token_device server (deviceCode state) j)) \<longrightarrow>
         poll_result out = Inl DeviceCodeTimeout"
    by auto
  have "0 < max 0 (expiresIn state) + interval state"
    using assms by linarith
  with post(1) have bounds:
    "interval state \<le> poll_interval out"
    "poll_elapsed out < max 0 (expiresIn state) + poll_interval out"
    by (simp_all add: poll_post_def)
  show ?thesis
    using run(1,2) run(3) [unfolded poll_ends_def] bounds post(2)
    by (intro exI [of _ n] exI [of _ out]) (simp add: pollForToken_def)
qed


lemma poll_slowed_then_granted:
  "pollForToken slowed_then_granted stopped_clock no_files long_grant =
     Some \<lparr>poll_result =
             Inr \<lparr>accessToken = ''at1'', refreshToken = ''rt1'', expiresAt = 3600, createdAt = 0\<rparr>,
           poll_store = saveOAuthTokens no_files
             \<lparr>accessToken = ''at1'', refreshToken = ''rt1'', expiresAt = 3600, createdAt = 0\<rparr>,
           poll_elapsed = 19, poll_interval = 12\<rparr>"
  by (simp add: pollForToken_def pollLoop.simps long_grant_def slowed_then_granted_def
      unavailable_def slow_down_def granted_def truthy_def createTokens_def stopped_clock_def
      now_seconds_def nonnull_def Let_def)

text \<open>The theorem at two runs. With a window of 30 seconds and an interval of 7, a
  server that answers \<^verbatim>\<open>slow_down\<close> and then grants: the polls are made at 7 and at 19
  seconds, the interval is 12 at the end, and the credential is returned and saved. With
  a window of 10 seconds and an interval of 7, a server that answers
  \<^verbatim>\<open>authorization_pending\<close> for ever: the polls are made at 7 and at 14 seconds, and the
  timeout is raised at 14.\<close>

theorem pollForToken_returns_witness:
  "0 < interval long_grant \<and>
   retries (token_device slowed_then_granted (deviceCode long_grant) 0) \<and>
   poll_schedule (token_device slowed_then_granted (deviceCode long_grant))
     (interval long_grant) 0 = (0, 7) \<and>
   poll_schedule (token_device slowed_then_granted (deviceCode long_grant))
     (interval long_grant) 1 = (7, 12) \<and>
   7 < expiresIn long_grant \<and>
   \<not> retries (token_device slowed_then_granted (deviceCode long_grant) 1) \<and>
   pollForToken slowed_then_granted stopped_clock no_files long_grant =
     Some \<lparr>poll_result =
             Inr \<lparr>accessToken = ''at1'', refreshToken = ''rt1'', expiresAt = 3600, createdAt = 0\<rparr>,
           poll_store = saveOAuthTokens no_files
             \<lparr>accessToken = ''at1'', refreshToken = ''rt1'', expiresAt = 3600, createdAt = 0\<rparr>,
           poll_elapsed = 19, poll_interval = 12\<rparr> \<and>
   0 < interval short_grant \<and>
   (\<forall>k. retries (token_device always_pending (deviceCode short_grant) k)) \<and>
   poll_schedule (token_device always_pending (deviceCode short_grant))
     (interval short_grant) 2 = (14, 7) \<and>
   \<not> 14 < expiresIn short_grant \<and>
   pollForToken always_pending stopped_clock no_files short_grant =
     Some \<lparr>poll_result = Inl DeviceCodeTimeout, poll_store = no_files,
           poll_elapsed = 14, poll_interval = 7\<rparr>"
proof -
  have long: "0 < interval long_grant"
    by (simp add: long_grant_def)
  have short: "0 < interval short_grant"
    by (simp add: short_grant_def)
  have replies:
    "retries (token_device slowed_then_granted (deviceCode long_grant) 0)"
    "\<not> retries (token_device slowed_then_granted (deviceCode long_grant) 1)"
    "\<forall>k. retries (token_device always_pending (deviceCode short_grant) k)"
    by (simp_all add: retries_def slowed_then_granted_def always_pending_def unavailable_def
        slow_down_def granted_def pending_def truthy_def)
  have schedules:
    "poll_schedule (token_device slowed_then_granted (deviceCode long_grant))
       (interval long_grant) 0 = (0, 7)"
    "poll_schedule (token_device slowed_then_granted (deviceCode long_grant))
       (interval long_grant) 1 = (7, 12)"
    "poll_schedule (token_device always_pending (deviceCode short_grant))
       (interval short_grant) 2 = (14, 7)"
    by (simp_all add: numeral_2_eq_2 slows_def slowed_then_granted_def always_pending_def
        unavailable_def slow_down_def pending_def long_grant_def short_grant_def)
  show ?thesis
    using long short replies schedules poll_slowed_then_granted poll_always_pending
      pollForToken_returns [OF long, of slowed_then_granted stopped_clock no_files]
      pollForToken_returns [OF short, of always_pending stopped_clock no_files]
    by (simp add: long_grant_def short_grant_def)
qed


text \<open>Against C2 as stated: with a window of 10 seconds and an interval of 7, a server
  that answers \<^verbatim>\<open>authorization_pending\<close> to the first poll and grants at the second has
  its credential returned (and saved) at 14 seconds of elapsed poll time, after the
  window has closed. And with an interval of 0, against a server that always answers
  \<^verbatim>\<open>authorization_pending\<close>, \<open>pollForToken\<close> does not return at all.\<close>

theorem pollForToken_issues_after_window:
  "pollForToken granted_on_second_poll stopped_clock no_files short_grant =
     Some \<lparr>poll_result =
             Inr \<lparr>accessToken = ''at1'', refreshToken = ''rt1'', expiresAt = 3600, createdAt = 0\<rparr>,
           poll_store = saveOAuthTokens no_files
             \<lparr>accessToken = ''at1'', refreshToken = ''rt1'', expiresAt = 3600, createdAt = 0\<rparr>,
           poll_elapsed = 14, poll_interval = 7\<rparr> \<and>
   expiresIn short_grant = 10 \<and>
   pollForToken always_pending stopped_clock no_files zero_interval = None"
  using poll_zero_interval
  by (simp add: pollForToken_def pollLoop.simps short_grant_def granted_on_second_poll_def
      unavailable_def pending_def granted_def truthy_def createTokens_def stopped_clock_def
      now_seconds_def nonnull_def Let_def)

section \<open>Profile selection\<close>

text \<open>
  C3, at the input where the code departs from it. The profile set is empty, nothing
  is saved and auto-selection is on (the configuration's default): the second branch
  does not apply, the third reads \<^verbatim>\<open>profiles.profiles[0].uuid\<close> of an empty array, and
  \<open>select\<close> throws a \<^verbatim>\<open>TypeError\<close> where the claim has it return \<^verbatim>\<open>null\<close>. The source's
  comment on that branch is \<^verbatim>\<open>Multiple profiles with auto-select\<close>.
\<close>

theorem select_empty_autoSelect_throws:
  "select True 0 no_files \<lparr>owner = ''acct'', profiles = []\<rparr> = (Inl TypeError, no_files)"
  by (simp add: select_def loadSelectedProfile_def no_files_def)

text \<open>What \<open>select\<close> does on every input, branch by branch: the four cases of the claim
  hold as stated except on the empty set with auto-selection on.\<close>

lemma select_cases:
  "select autoSelect now_ms store ps =
     (if (\<exists>s. loadSelectedProfile store = Some s \<and> uuid s \<in> uuid ` set (profiles ps)) then
        (Inr (loadSelectedProfile store), store)
      else if length (profiles ps) = 1 then
        (Inr (Some (build now_ms (uuid (hd (profiles ps))) (username (hd (profiles ps))))),
         saveSelectedProfile store
           (build now_ms (uuid (hd (profiles ps))) (username (hd (profiles ps)))))
      else if autoSelect \<and> profiles ps \<noteq> [] then
        (Inr (Some (build now_ms (uuid (hd (profiles ps))) (username (hd (profiles ps))))),
         saveSelectedProfile store
           (build now_ms (uuid (hd (profiles ps))) (username (hd (profiles ps)))))
      else if autoSelect then (Inl TypeError, store)
      else (Inr None, store))"
proof -
  have saved: "(case loadSelectedProfile store of
            None \<Rightarrow> False
          | Some s \<Rightarrow> list_ex (\<lambda>p. uuid p = uuid s) (profiles ps)) =
        (\<exists>s. loadSelectedProfile store = Some s \<and> uuid s \<in> uuid ` set (profiles ps))"
    by (cases "loadSelectedProfile store") (auto simp: list_ex_iff image_iff intro: sym)
  have first: "profiles ps ! 0 = hd (profiles ps)" if "length (profiles ps) = 1"
    using that by (cases "profiles ps") simp_all
  show ?thesis
    unfolding select_def Let_def saved
    by (auto simp: first split: list.splits)
qed

lemma select_session_file:
  "select autoSelect now_ms store ps = (r, store') \<Longrightarrow>
   SESSION_TOKEN_FILE store' = SESSION_TOKEN_FILE store"
  by (auto simp: select_def saveSelectedProfile_def Let_def split: list.splits if_splits)

lemma resolve_member:
  "resolve now_ms ps selector = Inr sel \<Longrightarrow>
   \<exists>p \<in> set (profiles ps). sel = build now_ms (uuid p) (username p)"
  by (auto simp: resolve_def Let_def find_Some_iff split: if_splits option.splits)

text \<open>
  C9. A selector of digits only is an ordinal: when its value is below 1 or above the
  number of profiles, \<open>setSelection\<close> fails with the invalid-number error. Any other
  selector is an identifier: when no profile has it as uuid, \<open>setSelection\<close> fails with
  the not-found error. Neither failure writes. Whenever \<open>setSelection\<close> returns a
  selection, that selection is a profile of the set and is what the returned store holds
  as selected profile.
\<close>

theorem setSelection_errors_and_persists:
  "(all_digits selector \<and> (parseInt selector < 1 \<or> length (profiles ps) < parseInt selector) \<longrightarrow>
      setSelection now_ms store ps selector =
        (Inl (InvalidProfileNumber (length (profiles ps))), store)) \<and>
   (\<not> all_digits selector \<and> selector \<notin> uuid ` set (profiles ps) \<longrightarrow>
      setSelection now_ms store ps selector = (Inl (ProfileNotFound selector), store)) \<and>
   (\<forall>selected store'. setSelection now_ms store ps selector = (Inr selected, store') \<longrightarrow>
      loadSelectedProfile store' = Some selected \<and>
      (\<exists>p \<in> set (profiles ps). uuid selected = uuid p \<and> username selected = username p))"
proof (intro conjI impI allI)
  assume "all_digits selector \<and> (parseInt selector < 1 \<or> length (profiles ps) < parseInt selector)"
  then show "setSelection now_ms store ps selector =
        (Inl (InvalidProfileNumber (length (profiles ps))), store)"
    by (auto simp: setSelection_def resolve_def Let_def)
next
  assume other: "\<not> all_digits selector \<and> selector \<notin> uuid ` set (profiles ps)"
  then have "find (\<lambda>p. uuid p = selector) (profiles ps) = None"
    by (auto simp: find_None_iff)
  with other show "setSelection now_ms store ps selector = (Inl (ProfileNotFound selector), store)"
    by (simp add: setSelection_def resolve_def)
next
  fix selected store'
  assume "setSelection now_ms store ps selector = (Inr selected, store')"
  then have r: "resolve now_ms ps selector = Inr selected"
    and s: "store' = saveSelectedProfile store selected"
    by (auto simp: setSelection_def split: sum.splits)
  show "loadSelectedProfile store' = Some selected"
    using s by (simp add: loadSelectedProfile_def saveSelectedProfile_def)
  show "\<exists>p \<in> set (profiles ps). uuid selected = uuid p \<and> username selected = username p"
    using resolve_member [OF r] by (auto simp: build_def)
qed

text \<open>The theorem on a set of two profiles: the ordinals \<^verbatim>\<open>0\<close> and \<^verbatim>\<open>3\<close>, an unknown
  identifier, the ordinal \<^verbatim>\<open>2\<close> and the second profile's identifier.\<close>

theorem setSelection_errors_and_persists_witness:
  "all_digits ''0'' \<and> parseInt ''0'' < 1 \<and>
   setSelection 0 no_files two_profiles ''0'' = (Inl (InvalidProfileNumber 2), no_files) \<and>
   all_digits ''3'' \<and> length (profiles two_profiles) < parseInt ''3'' \<and>
   setSelection 0 no_files two_profiles ''3'' = (Inl (InvalidProfileNumber 2), no_files) \<and>
   \<not> all_digits ''xyz789'' \<and> ''xyz789'' \<notin> uuid ` set (profiles two_profiles) \<and>
   setSelection 0 no_files two_profiles ''xyz789'' = (Inl (ProfileNotFound ''xyz789''), no_files) \<and>
   setSelection 0 no_files two_profiles ''2'' =
     (Inr \<lparr>uuid = ''def456'', username = ''Alex'', selectedAt = 0\<rparr>,
      saveSelectedProfile no_files \<lparr>uuid = ''def456'', username = ''Alex'', selectedAt = 0\<rparr>) \<and>
   loadSelectedProfile
     (saveSelectedProfile no_files \<lparr>uuid = ''def456'', username = ''Alex'', selectedAt = 0\<rparr>) =
     Some \<lparr>uuid = ''def456'', username = ''Alex'', selectedAt = 0\<rparr> \<and>
   setSelection 0 no_files two_profiles ''def456'' =
     (Inr \<lparr>uuid = ''def456'', username = ''Alex'', selectedAt = 0\<rparr>,
      saveSelectedProfile no_files \<lparr>uuid = ''def456'', username = ''Alex'', selectedAt = 0\<rparr>)"
proof -
  have digits: "all_digits ''0''" "all_digits ''3''" "all_digits ''2''" "\<not> all_digits ''xyz789''"
    "\<not> all_digits ''def456''"
    by (simp_all add: all_digits_def is_digit_def)
  have nums: "parseInt ''0'' = 0" "parseInt ''3'' = 3" "parseInt ''2'' = 2"
    by (simp_all add: parseInt_def)
  have by_number: "setSelection 0 no_files two_profiles ''2'' =
     (Inr \<lparr>uuid = ''def456'', username = ''Alex'', selectedAt = 0\<rparr>,
      saveSelectedProfile no_files \<lparr>uuid = ''def456'', username = ''Alex'', selectedAt = 0\<rparr>)"
    by (simp add: setSelection_def resolve_def digits nums two_profiles_def steve_def alex_def
        build_def now_seconds_def)
  have by_uuid: "setSelection 0 no_files two_profiles ''def456'' =
     (Inr \<lparr>uuid = ''def456'', username = ''Alex'', selectedAt = 0\<rparr>,
      saveSelectedProfile no_files \<lparr>uuid = ''def456'', username = ''Alex'', selectedAt = 0\<rparr>)"
    by (simp add: setSelection_def resolve_def digits two_profiles_def steve_def alex_def
        build_def now_seconds_def)
  have unknown: "''xyz789'' \<notin> uuid ` set (profiles two_profiles)"
    by (simp add: two_profiles_def steve_def alex_def)
  show ?thesis
    using setSelection_errors_and_persists [of "''0''" two_profiles 0 no_files]
      setSelection_errors_and_persists [of "''3''" two_profiles 0 no_files]
      setSelection_errors_and_persists [of "''xyz789''" two_profiles 0 no_files]
      setSelection_errors_and_persists [of "''2''" two_profiles 0 no_files]
      digits nums by_number by_uuid unknown
    by (simp add: two_profiles_def)
qed

section \<open>The credential store\<close>

text \<open>
  C5, as the code has it. A session credential that is saved and then loaded comes back
  with every field as it was, and so does an OAuth credential whose access token and
  refresh token are both non-empty. \<open>loadOAuthTokens\<close> tests the two tokens for
  truthiness, so an OAuth credential with an empty access or refresh token is saved but
  loads as \<^verbatim>\<open>null\<close>. Loading when the file is absent gives \<^verbatim>\<open>null\<close>, for both kinds.
\<close>

theorem store_roundtrip:
  "(accessToken t \<noteq> [] \<and> refreshToken t \<noteq> [] \<longrightarrow>
      loadOAuthTokens now_ms (saveOAuthTokens store t) = Some t) \<and>
   ((accessToken t = [] \<or> refreshToken t = []) \<longrightarrow>
      loadOAuthTokens now_ms (saveOAuthTokens store t) = None) \<and>
   loadSessionTokens (saveSessionTokens store s) = Some s \<and>
   (OAUTH_TOKEN_FILE store = None \<longrightarrow> loadOAuthTokens now_ms store = None) \<and>
   (SESSION_TOKEN_FILE store = None \<longrightarrow> loadSessionTokens store = None)"
  by (simp add: loadOAuthTokens_def saveOAuthTokens_def loadSessionTokens_def
      saveSessionTokens_def truthy_def nonnull_def)

theorem store_roundtrip_witness:
  "accessToken old_oauth \<noteq> [] \<and> refreshToken old_oauth \<noteq> [] \<and>
   loadOAuthTokens 0 (saveOAuthTokens no_files old_oauth) = Some old_oauth \<and>
   refreshToken (old_oauth\<lparr>refreshToken := []\<rparr>) = [] \<and>
   loadOAuthTokens 0 (saveOAuthTokens no_files (old_oauth\<lparr>refreshToken := []\<rparr>)) = None \<and>
   loadSessionTokens (saveSessionTokens no_files old_session) = Some old_session \<and>
   OAUTH_TOKEN_FILE no_files = None \<and> loadOAuthTokens 0 no_files = None \<and>
   SESSION_TOKEN_FILE no_files = None \<and> loadSessionTokens no_files = None"
  using store_roundtrip [of old_oauth 0 no_files old_session]
    store_roundtrip [of "old_oauth\<lparr>refreshToken := []\<rparr>" 0 no_files old_session]
  by (simp add: old_oauth_def no_files_def)

text \<open>Against C5 as stated: an OAuth credential whose refresh token is the empty
  string (what \<open>refreshToken\<close> builds when the server sends \<^verbatim>\<open>"refresh_token": ""\<close>) is
  saved, and loading gives \<^verbatim>\<open>null\<close> instead of the credential.\<close>

theorem store_roundtrip_counterexample:
  "loadOAuthTokens 0 (saveOAuthTokens no_files
      \<lparr>accessToken = ''at2'', refreshToken = [], expiresAt = 7200, createdAt = 0\<rparr>) = None \<and>
   loadOAuthTokens 0 (saveOAuthTokens no_files
      \<lparr>accessToken = ''at2'', refreshToken = [], expiresAt = 7200, createdAt = 0\<rparr>)
   \<noteq> Some \<lparr>accessToken = ''at2'', refreshToken = [], expiresAt = 7200, createdAt = 0\<rparr>"
  by (simp add: loadOAuthTokens_def saveOAuthTokens_def truthy_def)

section \<open>OAuth refresh\<close>

text \<open>
  C7. When the token endpoint's reply to \<open>refreshToken\<close> carries no error and has an
  access token, the credential that is returned has the reply's refresh token if the
  reply has one and the prior refresh token otherwise, and the OAuth file of the
  returned store holds that credential.
\<close>

theorem refreshToken_retains_or_replaces:
  assumes "body (token_refresh server prior) = Json data"
    and "\<not> truthy (error data)"
    and "truthy (access_token data)"
  shows "\<exists>tokens store'.
     OAuthClient_refreshToken now_ms server store prior = (Inr tokens, store') \<and>
     refreshToken tokens = (case refresh_token data of None \<Rightarrow> prior | Some r \<Rightarrow> r) \<and>
     Some (accessToken tokens) = access_token data \<and>
     OAUTH_TOKEN_FILE store' = Some (Json
       \<lparr>f_access_token = Some (accessToken tokens),
        f_refresh_token = Some (refreshToken tokens),
        expires_at = Some (expiresAt tokens),
        created_at = Some (createdAt tokens)\<rparr>)"
  using assms truthy_Some [OF assms(3)]
  by (auto simp: OAuthClient_refreshToken_def createTokens_def saveOAuthTokens_def Let_def
      nonnull_def)

text \<open>The theorem at a reply without a refresh token (\<^verbatim>\<open>rt1\<close> is kept) and at a reply
  with one (\<^verbatim>\<open>rt2\<close> replaces it).\<close>

theorem refreshToken_retains_or_replaces_witness:
  "body (token_refresh not_rotating ''rt1'') = Json not_rotated \<and>
   \<not> truthy (error not_rotated) \<and> truthy (access_token not_rotated) \<and>
   refresh_token not_rotated = None \<and>
   OAuthClient_refreshToken 0 not_rotating no_files ''rt1'' =
     (Inr \<lparr>accessToken = ''at2'', refreshToken = ''rt1'', expiresAt = 7200, createdAt = 0\<rparr>,
      saveOAuthTokens no_files
        \<lparr>accessToken = ''at2'', refreshToken = ''rt1'', expiresAt = 7200, createdAt = 0\<rparr>) \<and>
   body (token_refresh rotating ''rt1'') = Json rotated \<and>
   \<not> truthy (error rotated) \<and> truthy (access_token rotated) \<and>
   refresh_token rotated = Some ''rt2'' \<and>
   OAuthClient_refreshToken 0 rotating no_files ''rt1'' =
     (Inr \<lparr>accessToken = ''at2'', refreshToken = ''rt2'', expiresAt = 7200, createdAt = 0\<rparr>,
      saveOAuthTokens no_files
        \<lparr>accessToken = ''at2'', refreshToken = ''rt2'', expiresAt = 7200, createdAt = 0\<rparr>)"
proof -
  have kept: "body (token_refresh not_rotating ''rt1'') = Json not_rotated"
    "\<not> truthy (error not_rotated)" "truthy (access_token not_rotated)"
    by (simp_all add: not_rotating_def unavailable_def not_rotated_def truthy_def)
  have replaced: "body (token_refresh rotating ''rt1'') = Json rotated"
    "\<not> truthy (error rotated)" "truthy (access_token rotated)"
    by (simp_all add: rotating_def unavailable_def rotated_def truthy_def)
  have results:
    "OAuthClient_refreshToken 0 not_rotating no_files ''rt1'' =
     (Inr \<lparr>accessToken = ''at2'', refreshToken = ''rt1'', expiresAt = 7200, createdAt = 0\<rparr>,
      saveOAuthTokens no_files
        \<lparr>accessToken = ''at2'', refreshToken = ''rt1'', expiresAt = 7200, createdAt = 0\<rparr>)"
    "OAuthClient_refreshToken 0 rotating no_files ''rt1'' =
     (Inr \<lparr>accessToken = ''at2'', refreshToken = ''rt2'', expiresAt = 7200, createdAt = 0\<rparr>,
      saveOAuthTokens no_files
        \<lparr>accessToken = ''at2'', refreshToken = ''rt2'', expiresAt = 7200, createdAt = 0\<rparr>)"
    by (simp_all add: OAuthClient_refreshToken_def not_rotating_def rotating_def unavailable_def
        not_rotated_def rotated_def truthy_def createTokens_def nonnull_def now_seconds_def
        Let_def)
  show ?thesis
    using kept replaced results
      refreshToken_retains_or_replaces [OF kept, of 0 no_files]
      refreshToken_retains_or_replaces [OF replaced, of 0 no_files]
    by (simp add: not_rotated_def rotated_def)
qed

lemma refreshToken_session_file:
  "OAuthClient_refreshToken now_ms server store prior = (r, store') \<Longrightarrow>
   SESSION_TOKEN_FILE store' = SESSION_TOKEN_FILE store"
  by (auto simp: OAuthClient_refreshToken_def saveOAuthTokens_def Let_def
      split: json.splits if_splits)

lemma getProfiles_session_file:
  "getProfiles server store bearer = (r, store') \<Longrightarrow>
   SESSION_TOKEN_FILE store' = SESSION_TOKEN_FILE store"
  by (auto simp: getProfiles_def saveProfiles_def Let_def split: json.splits if_splits)

section \<open>Session creation and refresh\<close>

text \<open>
  C8. When the reply to a session creation carries no error and has the session token,
  the identity token and the expiry string \<open>s\<close>, \<open>create\<close> returns a credential (it does
  not fail, whatever \<^verbatim>\<open>Date.parse\<close> makes of \<open>s\<close>) whose absolute expiry is the parsed
  instant in whole seconds, or the current time plus 3600 seconds when \<open>s\<close> does not
  parse; the credential is saved. A reply that carries an error is rejected before
  anything is derived.
\<close>

theorem create_derives_expiry:
  assumes "body (session_new server profileUuid bearer) = Json data"
    and "\<not> truthy (r_error data)"
    and "truthy (r_sessionToken data)" and "truthy (r_identityToken data)"
    and "r_expiresAt data = Some s" and "s \<noteq> []"
  shows "\<exists>tokens store'.
     SessionManager_create Date_parse now_ms server store profileUuid bearer = (Inr tokens, store') \<and>
     expiresAtStr tokens = s \<and>
     expiresEpoch tokens =
       (case Date_parse s of None \<Rightarrow> now_seconds now_ms + 3600 | Some parsed \<Rightarrow> parsed div 1000) \<and>
     loadSessionTokens store' = Some tokens"
  using assms
  by (auto simp: SessionManager_create_def Let_def truthy_def nonnull_def parseExpiry_def
      loadSessionTokens_def saveSessionTokens_def)

text \<open>The theorem at a reply whose expiry parses and at one whose expiry is
  \<^verbatim>\<open>soon\<close>, with the clock at 5000 ms.\<close>

theorem create_derives_expiry_witness:
  "body (session_new create_fine ''abc123'' ''at2'') = Json session_reply \<and>
   \<not> truthy (r_error session_reply) \<and> truthy (r_sessionToken session_reply) \<and>
   truthy (r_identityToken session_reply) \<and>
   r_expiresAt session_reply = Some ''2026-01-01T00:00:00Z'' \<and>
   one_date ''2026-01-01T00:00:00Z'' = Some 1767225600000 \<and>
   fst (SessionManager_create one_date 5000 create_fine no_files ''abc123'' ''at2'') =
     Inr \<lparr>sessionToken = ''s2'', identityToken = ''i2'',
          expiresAtStr = ''2026-01-01T00:00:00Z'', expiresEpoch = 1767225600,
          sessionCreatedAt = 5\<rparr> \<and>
   body (session_new create_odd ''abc123'' ''at2'') = Json session_reply_odd_date \<and>
   \<not> truthy (r_error session_reply_odd_date) \<and> truthy (r_sessionToken session_reply_odd_date) \<and>
   truthy (r_identityToken session_reply_odd_date) \<and>
   r_expiresAt session_reply_odd_date = Some ''soon'' \<and>
   one_date ''soon'' = None \<and>
   fst (SessionManager_create one_date 5000 create_odd no_files ''abc123'' ''at2'') =
     Inr \<lparr>sessionToken = ''s3'', identityToken = ''i3'',
          expiresAtStr = ''soon'', expiresEpoch = 3605, sessionCreatedAt = 5\<rparr>"
proof -
  have fine: "body (session_new create_fine ''abc123'' ''at2'') = Json session_reply"
    "\<not> truthy (r_error session_reply)" "truthy (r_sessionToken session_reply)"
    "truthy (r_identityToken session_reply)"
    "r_expiresAt session_reply = Some ''2026-01-01T00:00:00Z''" "''2026-01-01T00:00:00Z'' \<noteq> []"
    by (simp_all add: create_fine_def unavailable_def session_reply_def truthy_def)
  have odd: "body (session_new create_odd ''abc123'' ''at2'') = Json session_reply_odd_date"
    "\<not> truthy (r_error session_reply_odd_date)" "truthy (r_sessionToken session_reply_odd_date)"
    "truthy (r_identityToken session_reply_odd_date)"
    "r_expiresAt session_reply_odd_date = Some ''soon''" "''soon'' \<noteq> []"
    by (simp_all add: create_odd_def unavailable_def session_reply_odd_date_def truthy_def)
  have results:
    "fst (SessionManager_create one_date 5000 create_fine no_files ''abc123'' ''at2'') =
     Inr \<lparr>sessionToken = ''s2'', identityToken = ''i2'',
          expiresAtStr = ''2026-01-01T00:00:00Z'', expiresEpoch = 1767225600,
          sessionCreatedAt = 5\<rparr>"
    "fst (SessionManager_create one_date 5000 create_odd no_files ''abc123'' ''at2'') =
     Inr \<lparr>sessionToken = ''s3'', identityToken = ''i3'',
          expiresAtStr = ''soon'', expiresEpoch = 3605, sessionCreatedAt = 5\<rparr>"
    by (simp_all add: SessionManager_create_def create_fine_def create_odd_def unavailable_def
        session_reply_def session_reply_odd_date_def truthy_def nonnull_def parseExpiry_def
        one_date_def now_seconds_def Let_def)
  show ?thesis
    using fine odd results
      create_derives_expiry [OF fine, of one_date 5000 no_files]
      create_derives_expiry [OF odd, of one_date 5000 no_files]
    by (simp add: one_date_def)
qed

lemma create_failed_store:
  "SessionManager_create Date_parse now_ms server store u bearer = (Inl e, store') \<Longrightarrow> store' = store"
  by (auto simp: SessionManager_create_def Let_def split: json.splits if_splits)

lemma create_persists:
  "SessionManager_create Date_parse now_ms server store u bearer = (Inr created, store') \<Longrightarrow>
   loadSessionTokens store' = Some created"
  by (auto simp: SessionManager_create_def Let_def loadSessionTokens_def saveSessionTokens_def
      split: json.splits if_splits)

text \<open>What \<open>refresh\<close> does on every response. It returns \<^verbatim>\<open>null\<close> and writes nothing
  when the response is not 2xx, when its body does not parse, and when the body is a
  value other than \<^verbatim>\<open>null\<close> from which the session token, the identity token or the
  expiry is missing (absent or empty: the code tests truthiness). When the response is
  2xx and has all three, it saves and returns the credential built from them. When the
  response is 2xx and its body is \<^verbatim>\<open>null\<close>, it throws.\<close>

lemma refresh_cases:
  "(\<not> ok (session_refresh server tok) \<longrightarrow>
      SessionManager_refresh Date_parse now_ms server store tok = (Inr None, store)) \<and>
   (ok (session_refresh server tok) \<and> body (session_refresh server tok) = Malformed \<longrightarrow>
      SessionManager_refresh Date_parse now_ms server store tok = (Inr None, store)) \<and>
   (ok (session_refresh server tok) \<and> body (session_refresh server tok) = Null \<longrightarrow>
      SessionManager_refresh Date_parse now_ms server store tok = (Inl TypeError, store)) \<and>
   (\<forall>data. ok (session_refresh server tok) \<and> body (session_refresh server tok) = Json data \<and>
       (\<not> truthy (r_sessionToken data) \<or> \<not> truthy (r_identityToken data)
          \<or> \<not> truthy (r_expiresAt data)) \<longrightarrow>
      SessionManager_refresh Date_parse now_ms server store tok = (Inr None, store)) \<and>
   (\<forall>data s i x. ok (session_refresh server tok) \<and> body (session_refresh server tok) = Json data \<and>
       r_sessionToken data = Some s \<and> s \<noteq> [] \<and> r_identityToken data = Some i \<and> i \<noteq> [] \<and>
       r_expiresAt data = Some x \<and> x \<noteq> [] \<longrightarrow>
      SessionManager_refresh Date_parse now_ms server store tok =
        (Inr (Some
           \<lparr>sessionToken = s, identityToken = i, expiresAtStr = x,
            expiresEpoch =
              (case Date_parse x of
                 None \<Rightarrow> now_seconds now_ms + 3600
               | Some parsed \<Rightarrow> parsed div 1000),
            sessionCreatedAt = now_seconds now_ms\<rparr>),
         saveSessionTokens store
           \<lparr>sessionToken = s, identityToken = i, expiresAtStr = x,
            expiresEpoch =
              (case Date_parse x of
                 None \<Rightarrow> now_seconds now_ms + 3600
               | Some parsed \<Rightarrow> parsed div 1000),
            sessionCreatedAt = now_seconds now_ms\<rparr>))"
  by (auto simp: SessionManager_refresh_def Let_def truthy_def nonnull_def parseExpiry_def)

text \<open>
  C6, at the input where the code departs from it. The session endpoint answers the
  refresh with status 200 and the body \<^verbatim>\<open>null\<close>. The body parses, so the \<^verbatim>\<open>catch\<close> around
  \<^verbatim>\<open>response.json()\<close> does not run; the session token, the identity token and the
  expiry are all missing; and the read of \<^verbatim>\<open>data.sessionToken\<close>, which is outside the
  \<^verbatim>\<open>try\<close>, throws a \<^verbatim>\<open>TypeError\<close> where the claim has \<open>refresh\<close> return \<^verbatim>\<open>null\<close>. The two
  sibling paths (a body that does not parse, a body without the tokens) return \<^verbatim>\<open>null\<close>.
\<close>

theorem refresh_null_body_throws:
  "ok (session_refresh refresh_null_body ''s1'') \<and>
   body (session_refresh refresh_null_body ''s1'') = Null \<and>
   SessionManager_refresh one_date 0 refresh_null_body signed_in ''s1'' =
     (Inl TypeError, signed_in)"
  by (simp add: SessionManager_refresh_def refresh_null_body_def unavailable_def ok_def)

text \<open>
  C10. Whenever \<open>refresh\<close> returns \<^verbatim>\<open>null\<close>, the store it returns is the store it was
  given: no file was written, and the persisted session credential is what it was.
\<close>

theorem refresh_null_leaves_store:
  "fst (SessionManager_refresh Date_parse now_ms server store tok) = Inr None \<Longrightarrow>
   snd (SessionManager_refresh Date_parse now_ms server store tok) = store"
  by (auto simp: SessionManager_refresh_def Let_def split: json.splits if_splits)

theorem refresh_null_leaves_store_witness:
  "fst (SessionManager_refresh one_date 0 refresh_incomplete signed_in ''s1'') = Inr None \<and>
   snd (SessionManager_refresh one_date 0 refresh_incomplete signed_in ''s1'') = signed_in \<and>
   loadSessionTokens (snd (SessionManager_refresh one_date 0 refresh_incomplete signed_in ''s1'')) =
     Some old_session"
proof -
  have null: "fst (SessionManager_refresh one_date 0 refresh_incomplete signed_in ''s1'') = Inr None"
    by (simp add: SessionManager_refresh_def refresh_incomplete_def unavailable_def ok_def
        session_reply_no_identity_def truthy_def)
  have "loadSessionTokens signed_in = Some old_session"
    by (simp add: signed_in_def loadSessionTokens_def saveSessionTokens_def)
  then show ?thesis
    using null refresh_null_leaves_store [OF null] by simp
qed

section \<open>The refresh command\<close>

text \<open>Whatever way such a run ends, the stored session credential is either the one
  from before or the one that \<open>create\<close> returned.\<close>

lemma refresh_fallback_outcome:
  assumes oauth: "loadOAuthTokens now_ms store = Some oauth"
    and refreshed: "OAuthClient_refreshToken now_ms server store (refreshToken oauth) = (Inr refreshed, store1)"
    and session: "loadSessionTokens store1 = Some session"
    and null: "fst (SessionManager_refresh Date_parse now_ms server store1 (sessionToken session)) = Inr None"
  shows "case AuthCli_refresh autoSelect Date_parse now_ms server store of
      (Inl e, store') \<Rightarrow> loadSessionTokens store' = Some session
    | (Inr u, store') \<Rightarrow>
        (\<exists>ps store3 selection store4.
           getProfiles server store1 (accessToken refreshed) = (Inr ps, store3) \<and>
           select autoSelect now_ms store3 ps = (Inr selection, store4) \<and>
           (case selection of
              None \<Rightarrow> store' = store4 \<and> loadSessionTokens store' = Some session
            | Some selected \<Rightarrow>
                (\<exists>created.
                   SessionManager_create Date_parse now_ms server store4 (uuid selected)
                     (accessToken refreshed) = (Inr created, store') \<and>
                   loadSessionTokens store' = Some created)))"
proof -
  obtain r3 store3 where g: "getProfiles server store1 (accessToken refreshed) = (r3, store3)"
    by (cases "getProfiles server store1 (accessToken refreshed)")
  have s3: "loadSessionTokens store3 = Some session"
    using loadSessionTokens_file [OF getProfiles_session_file [OF g]] session by simp
  note start = oauth refreshed session refresh_None_store [OF null] g
  show ?thesis
  proof (cases r3)
    case (Inl e)
    then show ?thesis
      using start s3 by (simp add: AuthCli_refresh_def)
  next
    case (Inr ps)
    obtain r4 store4 where s: "select autoSelect now_ms store3 ps = (r4, store4)"
      by (cases "select autoSelect now_ms store3 ps")
    have s4: "loadSessionTokens store4 = Some session"
      using loadSessionTokens_file [OF select_session_file [OF s]] s3 by simp
    show ?thesis
    proof (cases r4)
      case (Inl e)
      then show ?thesis
        using start Inr s s4 by (simp add: AuthCli_refresh_def)
    next
      case sel: (Inr selection)
      show ?thesis
      proof (cases selection)
        case None
        then show ?thesis
          using start Inr s sel s4 by (simp add: AuthCli_refresh_def)
      next
        case (Some selected)
        obtain r5 store5 where c: "SessionManager_create Date_parse now_ms server store4
            (uuid selected) (accessToken refreshed) = (r5, store5)"
          by (cases "SessionManager_create Date_parse now_ms server store4
            (uuid selected) (accessToken refreshed)")
        show ?thesis
        proof (cases r5)
          case (Inl e)
          then show ?thesis
            using start Inr s sel Some c s4 create_failed_store [of Date_parse now_ms server store4
                "uuid selected" "accessToken refreshed" e store5]
            by (simp add: AuthCli_refresh_def)
        next
          case created: (Inr created)
          then show ?thesis
            using start Inr s sel Some c create_persists [of Date_parse now_ms server store4
                "uuid selected" "accessToken refreshed" created store5]
            by (simp add: AuthCli_refresh_def)
        qed
      qed
    qed
  qed
qed

lemma select_profile_file:
  "select autoSelect now_ms store ps = (r, store') \<Longrightarrow>
   PROFILE_CACHE_FILE store' = PROFILE_CACHE_FILE store"
  by (auto simp: select_def saveSelectedProfile_def Let_def split: list.splits if_splits)

text \<open>
  C4, as the code has it. Take a run of \<^verbatim>\<open>AuthCli.refresh\<close> in which the OAuth credential
  is loaded and refreshed, a session credential exists and its refresh returns \<^verbatim>\<open>null\<close>.
  The profiles are then requested with the access token of the refreshed OAuth
  credential. If that response is not 2xx, the run ends with the HTTP error. If it is
  2xx with a profile set, the set is cached and the selection is resolved on it, and:
  \<^item> if \<open>select\<close> returns \<^verbatim>\<open>null\<close>, the run ends normally, no session is created, and the
    stored session credential is the one from before;
  \<^item> if \<open>select\<close> returns a profile and the reply to the session creation, requested for
    that profile with the same access token, has no error and has all three fields,
    the run ends normally and the stored session credential is the new one, built from
    that reply;
  \<^item> if \<open>select\<close> returns a profile and \<open>create\<close> throws, or if \<open>select\<close> throws, the run
    ends with that exception.
  However the run ends with an exception, the stored session credential is the one from
  before.
\<close>

theorem refresh_fallback:
  assumes oauth: "loadOAuthTokens now_ms store = Some oauth"
    and refreshed: "OAuthClient_refreshToken now_ms server store (refreshToken oauth) = (Inr refreshed, store1)"
    and session: "loadSessionTokens store1 = Some session"
    and null: "fst (SessionManager_refresh Date_parse now_ms server store1 (sessionToken session)) = Inr None"
  shows
   "(\<not> ok (get_profiles server (accessToken refreshed)) \<longrightarrow>
       AuthCli_refresh autoSelect Date_parse now_ms server store =
         (Inl (ProfilesHttpError (status (get_profiles server (accessToken refreshed)))), store1)) \<and>
    (\<forall>ps store4.
       ok (get_profiles server (accessToken refreshed)) \<and>
       body (get_profiles server (accessToken refreshed)) = Json ps \<and>
       select autoSelect now_ms (saveProfiles store1 ps) ps = (Inr None, store4) \<longrightarrow>
       AuthCli_refresh autoSelect Date_parse now_ms server store = (Inr (), store4) \<and>
       loadSessionTokens store4 = Some session \<and> loadProfiles store4 = Some ps) \<and>
    (\<forall>ps selected store4 data.
       ok (get_profiles server (accessToken refreshed)) \<and>
       body (get_profiles server (accessToken refreshed)) = Json ps \<and>
       select autoSelect now_ms (saveProfiles store1 ps) ps = (Inr (Some selected), store4) \<and>
       body (session_new server (uuid selected) (accessToken refreshed)) = Json data \<and>
       \<not> truthy (r_error data) \<and> truthy (r_sessionToken data) \<and>
       truthy (r_identityToken data) \<and> truthy (r_expiresAt data) \<longrightarrow>
       (\<exists>created.
          AuthCli_refresh autoSelect Date_parse now_ms server store =
            (Inr (), saveSessionTokens store4 created) \<and>
          loadSessionTokens (saveSessionTokens store4 created) = Some created \<and>
          loadProfiles (saveSessionTokens store4 created) = Some ps \<and>
          Some (sessionToken created) = r_sessionToken data \<and>
          Some (identityToken created) = r_identityToken data \<and>
          Some (expiresAtStr created) = r_expiresAt data)) \<and>
    (\<forall>ps selected store4 e store5.
       ok (get_profiles server (accessToken refreshed)) \<and>
       body (get_profiles server (accessToken refreshed)) = Json ps \<and>
       select autoSelect now_ms (saveProfiles store1 ps) ps = (Inr (Some selected), store4) \<and>
       SessionManager_create Date_parse now_ms server store4 (uuid selected)
         (accessToken refreshed) = (Inl e, store5) \<longrightarrow>
       AuthCli_refresh autoSelect Date_parse now_ms server store = (Inl e, store5)) \<and>
    (\<forall>ps e store4.
       ok (get_profiles server (accessToken refreshed)) \<and>
       body (get_profiles server (accessToken refreshed)) = Json ps \<and>
       select autoSelect now_ms (saveProfiles store1 ps) ps = (Inl e, store4) \<longrightarrow>
       AuthCli_refresh autoSelect Date_parse now_ms server store = (Inl e, store4)) \<and>
    (\<forall>e store'.
       AuthCli_refresh autoSelect Date_parse now_ms server store = (Inl e, store') \<longrightarrow>
       loadSessionTokens store' = Some session)"
proof -
  note start = oauth refreshed session refresh_None_store [OF null]
  have fetched: "getProfiles server store1 (accessToken refreshed) = (Inr ps, saveProfiles store1 ps)"
    if "ok (get_profiles server (accessToken refreshed))"
      "body (get_profiles server (accessToken refreshed)) = Json ps" for ps
    using that by (simp add: getProfiles_def)
  have refused: "AuthCli_refresh autoSelect Date_parse now_ms server store =
      (Inl (ProfilesHttpError (status (get_profiles server (accessToken refreshed)))), store1)"
    if "\<not> ok (get_profiles server (accessToken refreshed))"
    using start that by (simp add: AuthCli_refresh_def getProfiles_def)
  have deferred: "AuthCli_refresh autoSelect Date_parse now_ms server store = (Inr (), store4) \<and>
      loadSessionTokens store4 = Some session \<and> loadProfiles store4 = Some ps"
    if "ok (get_profiles server (accessToken refreshed))"
      "body (get_profiles server (accessToken refreshed)) = Json ps"
      "select autoSelect now_ms (saveProfiles store1 ps) ps = (Inr None, store4)" for ps store4
  proof -
    have "loadSessionTokens store4 = Some session"
      using loadSessionTokens_file [OF select_session_file [OF that(3)]] session
      by (simp add: loadSessionTokens_def saveProfiles_def)
    moreover have "loadProfiles store4 = Some ps"
      using select_profile_file [OF that(3)] by (simp add: loadProfiles_def saveProfiles_def)
    ultimately show ?thesis
      using start fetched [OF that(1,2)] that(3) by (simp add: AuthCli_refresh_def)
  qed
  have created: "\<exists>created.
          AuthCli_refresh autoSelect Date_parse now_ms server store =
            (Inr (), saveSessionTokens store4 created) \<and>
          loadSessionTokens (saveSessionTokens store4 created) = Some created \<and>
          loadProfiles (saveSessionTokens store4 created) = Some ps \<and>
          Some (sessionToken created) = r_sessionToken data \<and>
          Some (identityToken created) = r_identityToken data \<and>
          Some (expiresAtStr created) = r_expiresAt data"
    if "ok (get_profiles server (accessToken refreshed))"
      "body (get_profiles server (accessToken refreshed)) = Json ps"
      "select autoSelect now_ms (saveProfiles store1 ps) ps = (Inr (Some selected), store4)"
      "body (session_new server (uuid selected) (accessToken refreshed)) = Json data"
      "\<not> truthy (r_error data)" "truthy (r_sessionToken data)"
      "truthy (r_identityToken data)" "truthy (r_expiresAt data)" for ps selected store4 data
  proof -
    let ?created = "\<lparr>sessionToken = nonnull (r_sessionToken data),
        identityToken = nonnull (r_identityToken data),
        expiresAtStr = nonnull (r_expiresAt data),
        expiresEpoch = parseExpiry Date_parse now_ms (nonnull (r_expiresAt data)),
        sessionCreatedAt = now_seconds now_ms\<rparr>"
    have c: "SessionManager_create Date_parse now_ms server store4 (uuid selected)
        (accessToken refreshed) = (Inr ?created, saveSessionTokens store4 ?created)"
      using that(4-8) by (simp add: SessionManager_create_def Let_def)
    have "loadProfiles store4 = Some ps"
      using select_profile_file [OF that(3)] by (simp add: loadProfiles_def saveProfiles_def)
    then have "loadProfiles (saveSessionTokens store4 ?created) = Some ps"
      by (simp add: loadProfiles_def saveSessionTokens_def)
    moreover have "AuthCli_refresh autoSelect Date_parse now_ms server store =
        (Inr (), saveSessionTokens store4 ?created)"
      using start fetched [OF that(1,2)] that(3) c by (simp add: AuthCli_refresh_def)
    ultimately show ?thesis
      using truthy_Some [OF that(6)] truthy_Some [OF that(7)] truthy_Some [OF that(8)]
      by (intro exI [of _ ?created]) (auto simp: loadSessionTokens_def saveSessionTokens_def)
  qed
  have create_threw: "AuthCli_refresh autoSelect Date_parse now_ms server store = (Inl e, store5)"
    if "ok (get_profiles server (accessToken refreshed))"
      "body (get_profiles server (accessToken refreshed)) = Json ps"
      "select autoSelect now_ms (saveProfiles store1 ps) ps = (Inr (Some selected), store4)"
      "SessionManager_create Date_parse now_ms server store4 (uuid selected)
         (accessToken refreshed) = (Inl e, store5)" for ps selected store4 e store5
    using start fetched [OF that(1,2)] that(3,4) by (simp add: AuthCli_refresh_def)
  have select_threw: "AuthCli_refresh autoSelect Date_parse now_ms server store = (Inl e, store4)"
    if "ok (get_profiles server (accessToken refreshed))"
      "body (get_profiles server (accessToken refreshed)) = Json ps"
      "select autoSelect now_ms (saveProfiles store1 ps) ps = (Inl e, store4)" for ps e store4
    using start fetched [OF that(1,2)] that(3) by (simp add: AuthCli_refresh_def)
  have thrown: "loadSessionTokens store' = Some session"
    if "AuthCli_refresh autoSelect Date_parse now_ms server store = (Inl e, store')" for e store'
    using refresh_fallback_outcome [OF oauth refreshed session null, of autoSelect] that by simp
  show ?thesis
    using refused deferred created create_threw select_threw thrown by blast
qed

lemma signed_in_loads:
  "loadOAuthTokens 0 signed_in = Some old_oauth"
  "loadSessionTokens signed_in = Some old_session"
  by (simp_all add: signed_in_def loadOAuthTokens_def loadSessionTokens_def saveOAuthTokens_def
      saveSessionTokens_def old_oauth_def truthy_def nonnull_def)

lemma reachable_refreshToken:
  "OAuthClient_refreshToken 0 reachable signed_in (refreshToken old_oauth) =
     (Inr \<lparr>accessToken = ''at2'', refreshToken = ''rt2'', expiresAt = 7200, createdAt = 0\<rparr>,
      saveOAuthTokens signed_in
        \<lparr>accessToken = ''at2'', refreshToken = ''rt2'', expiresAt = 7200, createdAt = 0\<rparr>)"
  by (simp add: OAuthClient_refreshToken_def reachable_def rotated_def truthy_def
      createTokens_def nonnull_def now_seconds_def Let_def)

lemma reachable_refresh_null:
  "fst (SessionManager_refresh one_date 0 reachable store tok) = Inr None"
  by (simp add: SessionManager_refresh_def reachable_def ok_def)

lemma reachable_run:
  "AuthCli_refresh autoSelect one_date 0 reachable signed_in =
     (if autoSelect then
        (Inr (),
         saveSessionTokens
           (saveSelectedProfile
              (saveProfiles
                 (saveOAuthTokens signed_in
                    \<lparr>accessToken = ''at2'', refreshToken = ''rt2'', expiresAt = 7200,
                     createdAt = 0\<rparr>)
                 two_profiles)
              \<lparr>uuid = ''abc123'', username = ''Steve'', selectedAt = 0\<rparr>)
           \<lparr>sessionToken = ''s2'', identityToken = ''i2'',
            expiresAtStr = ''2026-01-01T00:00:00Z'', expiresEpoch = 1767225600,
            sessionCreatedAt = 0\<rparr>)
      else
        (Inr (),
         saveProfiles
           (saveOAuthTokens signed_in
              \<lparr>accessToken = ''at2'', refreshToken = ''rt2'', expiresAt = 7200, createdAt = 0\<rparr>)
           two_profiles))"
proof -
  have session1: "loadSessionTokens (saveOAuthTokens signed_in
      \<lparr>accessToken = ''at2'', refreshToken = ''rt2'', expiresAt = 7200, createdAt = 0\<rparr>) =
      Some old_session"
    by (simp add: signed_in_def loadSessionTokens_def saveOAuthTokens_def saveSessionTokens_def)
  have profiles: "getProfiles reachable store ''at2'' = (Inr two_profiles, saveProfiles store two_profiles)"
    for store
    by (simp add: getProfiles_def reachable_def ok_def)
  have nothing_saved: "loadSelectedProfile (saveProfiles (saveOAuthTokens signed_in t) two_profiles) = None"
    for t
    by (simp add: loadSelectedProfile_def saveProfiles_def saveOAuthTokens_def signed_in_def
        saveSessionTokens_def no_files_def)
  have selection: "select autoSelect 0 (saveProfiles (saveOAuthTokens signed_in t) two_profiles)
      two_profiles =
      (if autoSelect then
         (Inr (Some \<lparr>uuid = ''abc123'', username = ''Steve'', selectedAt = 0\<rparr>),
          saveSelectedProfile (saveProfiles (saveOAuthTokens signed_in t) two_profiles)
            \<lparr>uuid = ''abc123'', username = ''Steve'', selectedAt = 0\<rparr>)
       else (Inr None, saveProfiles (saveOAuthTokens signed_in t) two_profiles))" for t
    unfolding select_def nothing_saved
    by (simp add: two_profiles_def steve_def alex_def build_def now_seconds_def Let_def)
  have creation: "SessionManager_create one_date 0 reachable store ''abc123'' ''at2'' =
      (Inr \<lparr>sessionToken = ''s2'', identityToken = ''i2'',
            expiresAtStr = ''2026-01-01T00:00:00Z'', expiresEpoch = 1767225600,
            sessionCreatedAt = 0\<rparr>,
       saveSessionTokens store
         \<lparr>sessionToken = ''s2'', identityToken = ''i2'',
          expiresAtStr = ''2026-01-01T00:00:00Z'', expiresEpoch = 1767225600,
          sessionCreatedAt = 0\<rparr>)" for store
    by (simp add: SessionManager_create_def reachable_def session_reply_def truthy_def
        nonnull_def parseExpiry_def one_date_def now_seconds_def Let_def)
  have null: "SessionManager_refresh one_date 0 reachable store tok = (Inr None, store)" for store tok
    by (simp add: SessionManager_refresh_def reachable_def ok_def)
  show ?thesis
    using reachable_refreshToken
    by (simp add: AuthCli_refresh_def signed_in_loads session1 null profiles selection creation)
qed

lemma reachable_select:
  "select autoSelect 0 (saveProfiles (saveOAuthTokens signed_in refreshed_oauth) two_profiles)
      two_profiles =
      (if autoSelect then
         (Inr (Some \<lparr>uuid = ''abc123'', username = ''Steve'', selectedAt = 0\<rparr>),
          saveSelectedProfile
            (saveProfiles (saveOAuthTokens signed_in refreshed_oauth) two_profiles)
            \<lparr>uuid = ''abc123'', username = ''Steve'', selectedAt = 0\<rparr>)
       else (Inr None, saveProfiles (saveOAuthTokens signed_in refreshed_oauth) two_profiles))"
proof -
  have nothing_saved:
    "loadSelectedProfile (saveProfiles (saveOAuthTokens signed_in refreshed_oauth) two_profiles) = None"
    by (simp add: loadSelectedProfile_def saveProfiles_def saveOAuthTokens_def signed_in_def
        saveSessionTokens_def no_files_def)
  show ?thesis
    unfolding select_def nothing_saved
    by (simp add: two_profiles_def steve_def alex_def build_def now_seconds_def Let_def)
qed

text \<open>The theorem at a server that answers every request well-formed, rejecting only
  the refresh of the stale session, on an account of two profiles with nothing selected
  before. With auto-selection on, the first profile is selected and a new session is
  created for it; with auto-selection off, \<open>select\<close> returns \<^verbatim>\<open>null\<close> and the run ends
  normally with the stale session still stored.\<close>

theorem refresh_fallback_witness:
  "loadOAuthTokens 0 signed_in = Some old_oauth \<and>
   OAuthClient_refreshToken 0 reachable signed_in (refreshToken old_oauth) =
     (Inr refreshed_oauth, saveOAuthTokens signed_in refreshed_oauth) \<and>
   loadSessionTokens (saveOAuthTokens signed_in refreshed_oauth) = Some old_session \<and>
   fst (SessionManager_refresh one_date 0 reachable
          (saveOAuthTokens signed_in refreshed_oauth) (sessionToken old_session)) = Inr None \<and>
   ok (get_profiles reachable (accessToken refreshed_oauth)) \<and>
   body (get_profiles reachable (accessToken refreshed_oauth)) = Json two_profiles \<and>
   select True 0 (saveProfiles (saveOAuthTokens signed_in refreshed_oauth) two_profiles)
     two_profiles =
     (Inr (Some \<lparr>uuid = ''abc123'', username = ''Steve'', selectedAt = 0\<rparr>),
      saveSelectedProfile
        (saveProfiles (saveOAuthTokens signed_in refreshed_oauth) two_profiles)
        \<lparr>uuid = ''abc123'', username = ''Steve'', selectedAt = 0\<rparr>) \<and>
   body (session_new reachable ''abc123'' (accessToken refreshed_oauth)) = Json session_reply \<and>
   \<not> truthy (r_error session_reply) \<and> truthy (r_sessionToken session_reply) \<and>
   truthy (r_identityToken session_reply) \<and> truthy (r_expiresAt session_reply) \<and>
   fst (AuthCli_refresh True one_date 0 reachable signed_in) = Inr () \<and>
   loadSessionTokens (snd (AuthCli_refresh True one_date 0 reachable signed_in)) =
     Some \<lparr>sessionToken = ''s2'', identityToken = ''i2'',
           expiresAtStr = ''2026-01-01T00:00:00Z'', expiresEpoch = 1767225600,
           sessionCreatedAt = 0\<rparr> \<and>
   select False 0 (saveProfiles (saveOAuthTokens signed_in refreshed_oauth) two_profiles)
     two_profiles =
     (Inr None, saveProfiles (saveOAuthTokens signed_in refreshed_oauth) two_profiles) \<and>
   AuthCli_refresh False one_date 0 reachable signed_in =
     (Inr (), saveProfiles (saveOAuthTokens signed_in refreshed_oauth) two_profiles) \<and>
   loadSessionTokens (saveProfiles (saveOAuthTokens signed_in refreshed_oauth) two_profiles) =
     Some old_session"
proof -
  have r: "OAuthClient_refreshToken 0 reachable signed_in (refreshToken old_oauth) =
     (Inr refreshed_oauth, saveOAuthTokens signed_in refreshed_oauth)"
    using reachable_refreshToken by (simp add: refreshed_oauth_def)
  have session1: "loadSessionTokens (saveOAuthTokens signed_in refreshed_oauth) = Some old_session"
    by (simp add: signed_in_def loadSessionTokens_def saveOAuthTokens_def saveSessionTokens_def)
  have replies:
    "ok (get_profiles reachable (accessToken refreshed_oauth))"
    "body (get_profiles reachable (accessToken refreshed_oauth)) = Json two_profiles"
    "body (session_new reachable ''abc123'' (accessToken refreshed_oauth)) = Json session_reply"
    "\<not> truthy (r_error session_reply)" "truthy (r_sessionToken session_reply)"
    "truthy (r_identityToken session_reply)" "truthy (r_expiresAt session_reply)"
    by (simp_all add: reachable_def ok_def session_reply_def truthy_def)
  have runs:
    "fst (AuthCli_refresh True one_date 0 reachable signed_in) = Inr ()"
    "loadSessionTokens (snd (AuthCli_refresh True one_date 0 reachable signed_in)) =
     Some \<lparr>sessionToken = ''s2'', identityToken = ''i2'',
           expiresAtStr = ''2026-01-01T00:00:00Z'', expiresEpoch = 1767225600,
           sessionCreatedAt = 0\<rparr>"
    "AuthCli_refresh False one_date 0 reachable signed_in =
     (Inr (), saveProfiles (saveOAuthTokens signed_in refreshed_oauth) two_profiles)"
    unfolding reachable_run
    by (simp_all add: loadSessionTokens_def saveSessionTokens_def refreshed_oauth_def)
  have stale: "loadSessionTokens
      (saveProfiles (saveOAuthTokens signed_in refreshed_oauth) two_profiles) = Some old_session"
    by (simp add: signed_in_def loadSessionTokens_def saveOAuthTokens_def saveSessionTokens_def
        saveProfiles_def)
  show ?thesis
    using signed_in_loads(1) r session1 reachable_refresh_null replies runs stale
      reachable_select [of True] reachable_select [of False]
      refresh_fallback [OF signed_in_loads(1) r session1 reachable_refresh_null,
        where autoSelect = True]
      refresh_fallback [OF signed_in_loads(1) r session1 reachable_refresh_null,
        where autoSelect = False]
    by simp
qed

text \<open>Against C4 as stated: the same server and account with auto-selection off and no
  saved selection. The refresh of the session returns \<^verbatim>\<open>null\<close>, the profiles are
  fetched, \<open>select\<close> returns \<^verbatim>\<open>null\<close>, and the command ends normally without creating a
  session: the stored session credential is still the stale one, although the server
  would have created a session for the first profile.\<close>

theorem refresh_fallback_creates_no_session:
  "fst (SessionManager_refresh one_date 0 reachable
          (saveOAuthTokens signed_in
             \<lparr>accessToken = ''at2'', refreshToken = ''rt2'', expiresAt = 7200, createdAt = 0\<rparr>)
          (sessionToken old_session)) = Inr None \<and>
   fst (AuthCli_refresh False one_date 0 reachable signed_in) = Inr () \<and>
   loadSessionTokens (snd (AuthCli_refresh False one_date 0 reachable signed_in)) =
     Some old_session \<and>
   fst (SessionManager_create one_date 0 reachable
          (snd (AuthCli_refresh False one_date 0 reachable signed_in)) ''abc123'' ''at2'') =
     Inr \<lparr>sessionToken = ''s2'', identityToken = ''i2'',
          expiresAtStr = ''2026-01-01T00:00:00Z'', expiresEpoch = 1767225600,
          sessionCreatedAt = 0\<rparr>"
proof -
  have stale: "loadSessionTokens (snd (AuthCli_refresh False one_date 0 reachable signed_in)) =
     Some old_session"
    unfolding reachable_run
    by (simp add: loadSessionTokens_def saveProfiles_def saveOAuthTokens_def
        signed_in_def saveSessionTokens_def)
  have offered: "fst (SessionManager_create one_date 0 reachable
          (snd (AuthCli_refresh False one_date 0 reachable signed_in)) ''abc123'' ''at2'') =
     Inr \<lparr>sessionToken = ''s2'', identityToken = ''i2'',
          expiresAtStr = ''2026-01-01T00:00:00Z'', expiresEpoch = 1767225600,
          sessionCreatedAt = 0\<rparr>"
    by (simp add: SessionManager_create_def reachable_def session_reply_def truthy_def
        nonnull_def parseExpiry_def one_date_def now_seconds_def Let_def)
  show ?thesis
    using stale offered by (simp add: reachable_run reachable_refresh_null)
qed

end
